theory Spec2Isabelle
  imports Main "HOL-Library.Word"
begin

section \<open>Browser storage\<close>

text \<open>
  The client keeps its state in the browser's two key/value stores, \<open>sessionStorage\<close>
  and \<open>localStorage\<close>. Both map string keys to string values; \<open>getItem\<close> of a key that
  is not stored is \<open>null\<close>, here \<open>None\<close>.
\<close>

type_synonym storage = "string \<rightharpoonup> string"

record browser =
  sessionStorage :: storage
  localStorage :: storage

definition getItem :: "storage \<Rightarrow> string \<Rightarrow> string option" where
  "getItem s k = s k"

definition setItem :: "storage \<Rightarrow> string \<Rightarrow> string \<Rightarrow> storage" where
  "setItem s k v = s(k \<mapsto> v)"

definition removeItem :: "storage \<Rightarrow> string \<Rightarrow> storage" where
  "removeItem s k = s(k := None)"

text \<open>The constant \<open>SESSION_KEYS\<close> of \<open>zklogin.utils.ts\<close>, field by field.\<close>

definition EPHEMERAL_PRIVATE_KEY :: string where "EPHEMERAL_PRIVATE_KEY = ''ephemeral_private_key''"
definition MAX_EPOCH :: string where "MAX_EPOCH = ''max_epoch''"
definition RANDOMNESS :: string where "RANDOMNESS = ''randomness''"
definition NONCE :: string where "NONCE = ''nonce''"
definition ZK_PROOF :: string where "ZK_PROOF = ''zk_proof''"
definition USER_SALT :: string where "USER_SALT = ''user_salt''"
definition DECODED_JWT :: string where "DECODED_JWT = ''decoded_jwt''"
definition ZKLOGIN_ADDRESS :: string where "ZKLOGIN_ADDRESS = ''zklogin_address''"
definition SALT_BACKUP_SENT :: string where "SALT_BACKUP_SENT = ''salt_backup_sent''"

text \<open>\<open>Object.values(SESSION_KEYS)\<close>, in the order of the declaration.\<close>

definition SESSION_KEYS_values :: "string list" where
  "SESSION_KEYS_values =
     [EPHEMERAL_PRIVATE_KEY, MAX_EPOCH, RANDOMNESS, NONCE, ZK_PROOF, USER_SALT,
      DECODED_JWT, ZKLOGIN_ADDRESS, SALT_BACKUP_SENT]"

text \<open>The device-scoped key under which a subject's salt is kept: \<open>`zklogin_salt_${sub}`\<close>.\<close>

definition salt_key :: "string \<Rightarrow> string" where
  "salt_key userSub = ''zklogin_salt_'' @ userSub"

subsection \<open>Session utilities\<close>

definition isZkLoginSessionActive :: "browser \<Rightarrow> bool" where
  "isZkLoginSessionActive b = (getItem (sessionStorage b) ZKLOGIN_ADDRESS \<noteq> None)"

definition getZkLoginAddress :: "browser \<Rightarrow> string option" where
  "getZkLoginAddress b = getItem (sessionStorage b) ZKLOGIN_ADDRESS"

text \<open>
  \<open>zkLoginLogout\<close> runs \<open>sessionStorage.removeItem(key)\<close> for each value of
  \<open>SESSION_KEYS\<close>: a \<open>forEach\<close> loop, here a left fold over the list of keys.
\<close>

definition zkLoginLogout :: "browser \<Rightarrow> browser" where
  "zkLoginLogout b = b\<lparr>sessionStorage := foldl removeItem (sessionStorage b) SESSION_KEYS_values\<rparr>"

definition recoverSaltFromStorage :: "browser \<Rightarrow> string \<Rightarrow> string option" where
  "recoverSaltFromStorage b userSub = getItem (localStorage b) (salt_key userSub)"

section \<open>JavaScript values\<close>

text \<open>
  A number of JavaScript is an IEEE double. The numbers of this program are epochs, so
  natural numbers are carried as such (\<open>NatNum n\<close> is only built for an \<open>n\<close> that a
  double represents exactly); every other number (\<open>NaN\<close>, \<open>Infinity\<close>, a negative or
  fractional one) is carried by its canonical rendering, the string \<open>toString\<close> gives.
\<close>

datatype jsnum = NatNum nat | OtherNum string

text \<open>A JSON value, as \<open>express.json()\<close> hands it to a route in \<open>req.body\<close>.\<close>

datatype json =
  JNull | JBool bool | JNum jsnum | JStr string | JArr "json list" | JObj "(string \<times> json) list"

text \<open>
  Truthiness: \<open>!v\<close> is \<open>\<not> truthy v\<close>. An absent property (\<open>undefined\<close>) is \<open>None\<close>.
\<close>

fun truthy_json :: "json \<Rightarrow> bool" where
  "truthy_json JNull = False"
| "truthy_json (JBool b) = b"
| "truthy_json (JNum (NatNum n)) = (n \<noteq> 0)"
| "truthy_json (JNum (OtherNum r)) = (r \<noteq> ''NaN'')"
| "truthy_json (JStr s) = (s \<noteq> [])"
| "truthy_json (JArr _) = True"
| "truthy_json (JObj _) = True"

definition truthy :: "json option \<Rightarrow> bool" where
  "truthy v = (case v of None \<Rightarrow> False | Some j \<Rightarrow> truthy_json j)"

text \<open>The same for a value that is a string or \<open>null\<close>/\<open>undefined\<close>.\<close>

definition truthy_str :: "string option \<Rightarrow> bool" where
  "truthy_str v = (case v of None \<Rightarrow> False | Some s \<Rightarrow> s \<noteq> [])"

subsection \<open>Numerals\<close>

definition digit_char :: "nat \<Rightarrow> char" where
  "digit_char d = ''0123456789abcdef'' ! d"

text \<open>\<open>n.toString()\<close> of a \<open>BigInt\<close> (and of a number below \<open>10^21\<close>): decimal digits.\<close>

fun decimal :: "nat \<Rightarrow> string" where
  "decimal n = (if n < 10 then [digit_char n] else decimal (n div 10) @ [digit_char (n mod 10)])"

declare decimal.simps [simp del]

text \<open>
  \<open>Number(n)\<close> for a natural number: the nearest double, ties to the even significand.
  Below \<open>2^53\<close> every natural number is a double. Above, a double keeps the 53 leading
  bits. A result of \<open>2^1024\<close> or more is \<open>Infinity\<close>.
\<close>

fun bit_length :: "nat \<Rightarrow> nat" where
  "bit_length n = (if n = 0 then 0 else Suc (bit_length (n div 2)))"

declare bit_length.simps [simp del]

definition round_to_double :: "nat \<Rightarrow> nat" where
  "round_to_double n =
     (if n < 2 ^ 53 then n
      else
        (let k = bit_length n - 53;
             q = n div 2 ^ k;
             r = n mod 2 ^ k;
             half = 2 ^ (k - 1)
         in (if r < half then q else if half < r then q + 1 else if even q then q else q + 1)
            * 2 ^ k))"

definition Number_of_nat :: "nat \<Rightarrow> jsnum" where
  "Number_of_nat n =
     (let d = round_to_double n in if d < 2 ^ 1024 then NatNum d else OtherNum ''Infinity'')"

definition is_digit :: "char \<Rightarrow> bool" where
  "is_digit c = (c \<in> set ''0123456789'')"

definition decimal_value :: "string \<Rightarrow> nat" where
  "decimal_value s = foldl (\<lambda>a c. a * 10 + (of_char c - 48)) 0 s"

text \<open>\<open>Buffer.toString('hex')\<close>: two lower-case hexadecimal digits for each byte.\<close>

definition hex_of_byte :: "8 word \<Rightarrow> string" where
  "hex_of_byte b = [digit_char (unat b div 16), digit_char (unat b mod 16)]"

definition toString_hex :: "8 word list \<Rightarrow> string" where
  "toString_hex bs = concat (map hex_of_byte bs)"

text \<open>
  \<open>BigInt(s)\<close> for a string \<open>s\<close> of the form \<open>'0x' + digits\<close>, the only form the salt route
  passes. With no digit, or with a character that is not a hexadecimal digit, \<open>BigInt\<close> throws
  a \<open>SyntaxError\<close>: \<open>None\<close>.
\<close>

definition hex_value :: "char \<Rightarrow> nat option" where
  "hex_value c =
     (if c \<in> set ''0123456789'' then Some (of_char c - 48)
      else if c \<in> set ''abcdef'' then Some (of_char c - 87)
      else if c \<in> set ''ABCDEF'' then Some (of_char c - 55)
      else None)"

fun hex_digits_value :: "nat \<Rightarrow> string \<Rightarrow> nat option" where
  "hex_digits_value acc [] = Some acc"
| "hex_digits_value acc (c # cs) =
     (case hex_value c of None \<Rightarrow> None | Some d \<Rightarrow> hex_digits_value (acc * 16 + d) cs)"

definition BigInt_hex :: "string \<Rightarrow> nat option" where
  "BigInt_hex s =
     (case s of
        c0 # cx # ds \<Rightarrow>
          (if c0 = CHR ''0'' \<and> cx = CHR ''x'' \<and> ds \<noteq> [] then hex_digits_value 0 ds else None)
      | _ \<Rightarrow> None)"

text \<open>\<open>s.split(c)\<close>: the pieces of \<open>s\<close> between the occurrences of \<open>c\<close>.\<close>

fun split :: "char \<Rightarrow> string \<Rightarrow> string list" where
  "split c [] = [[]]"
| "split c (x # xs) =
     (if x = c then [] # split c xs
      else (case split c xs of [] \<Rightarrow> [[x]] | p # ps \<Rightarrow> (x # p) # ps))"

section \<open>Identity tokens\<close>

text \<open>
  The interface \<open>JwtPayload\<close>: every claim is optional, and the audience is a string or a
  list of strings. \<open>email\<close> is not declared by the interface; the client reads it through
  a cast (\<open>(decodedJwt as any).email\<close>).
\<close>

datatype aud_claim = AudString string | AudArray "string list"

record JwtPayload =
  iss :: "string option"
  sub :: "string option"
  aud :: "aud_claim option"
  exp :: "nat option"
  nbf :: "nat option"
  iat :: "nat option"
  jti :: "string option"
  nonce :: "string option"
  email :: "string option"

text \<open>
  \<open>Array.isArray(aud) ? aud[0] : aud\<close>, written in the salt route and again at signing
  time. The first entry of an empty list is \<open>undefined\<close>.
\<close>

definition normalizedAud :: "aud_claim option \<Rightarrow> string option" where
  "normalizedAud a =
     (case a of
        None \<Rightarrow> None
      | Some (AudString s) \<Rightarrow> Some s
      | Some (AudArray xs) \<Rightarrow> (case xs of [] \<Rightarrow> None | x # _ \<Rightarrow> Some x))"

section \<open>The routes of the server (zklogin.routes.ts)\<close>

text \<open>
  What the routes take from outside the repository is a field of \<open>server_env\<close>: the
  configured OAuth client id, the environment variable with the master secret, the
  \<open>jsonwebtoken\<close> decoder (\<open>null\<close> or an exception for a token it cannot decode: \<open>None\<close>),
  the HMAC-SHA256 of Node's \<open>crypto\<close> (key, then message) and the remote prover.
\<close>

datatype prover_payload =
  ProverPayload (p_jwt: "json option") (p_extendedEphemeralPublicKey: "json option")
    (p_maxEpoch: "json option") (p_jwtRandomness: "json option") (p_salt: "json option")
    (p_keyClaimName: string)

datatype prover_reply =
  ProverThrows string
| ProverNotOk string string
| ProverOk json

record server_env =
  CLIENT_ID :: string
  SALT_MASTER_SECRET :: "string option"
  jwt_decode :: "string \<Rightarrow> JwtPayload option"
  createHmac_sha256 :: "string \<Rightarrow> string \<Rightarrow> 8 word list"
  prover :: "prover_payload \<Rightarrow> prover_reply"

definition WHITELISTED_CLIENT_IDS :: "server_env \<Rightarrow> string list" where
  "WHITELISTED_CLIENT_IDS S = [CLIENT_ID S]"

subsection \<open>POST /salt\<close>

text \<open>
  The in-memory store \<open>userSalts\<close> is a \<open>Map\<close> from subject to salt; the route takes it and
  returns it updated. The responses: \<open>200 {salt}\<close>; \<open>403\<close> with
  \<open>{error: 'Salt service error', details: JSON.stringify({error: m})}\<close>, carried as
  \<open>SaltServiceError m\<close>; and \<open>500 {error: m}\<close> from the outer \<open>catch\<close>.
\<close>

datatype salt_response = Salt string | SaltServiceError string | SaltInternalError string

definition masterSecret :: "server_env \<Rightarrow> string" where
  "masterSecret S =
     (case SALT_MASTER_SECRET S of
        None \<Rightarrow> ''your-dev-master-secret-change-in-prod''
      | Some v \<Rightarrow> if v = [] then ''your-dev-master-secret-change-in-prod'' else v)"

text \<open>
  Lines 114 to 122 of the route: the digest, its first 16 bytes, their hexadecimal rendering
  read back as a \<open>BigInt\<close>, and the decimal string of that. \<open>None\<close> when \<open>BigInt\<close> throws.
\<close>

definition derive_salt :: "server_env \<Rightarrow> string \<Rightarrow> string option" where
  "derive_salt S userSub =
     (let hash = createHmac_sha256 S (masterSecret S) userSub;
          saltBytes = take 16 hash
      in case BigInt_hex (''0x'' @ toString_hex saltBytes) of
           None \<Rightarrow> None
         | Some saltBigInt \<Rightarrow> Some (decimal saltBigInt))"

text \<open>
  Two of the route's logging lines can throw. Line 49 calls \<open>token.substring\<close> on a truthy
  token, a \<open>TypeError\<close> when the token is not a string, which the outer \<open>catch\<close> answers
  with \<open>500\<close>. Line 73, inside the \<open>try\<close> around the decoding, renders
  \<open>new Date(decoded.exp * 1000).toISOString()\<close> for a truthy \<open>exp\<close>, a \<open>RangeError\<close> beyond
  the largest date (8.64e15 ms), which the inner \<open>catch\<close> answers as an invalid token.
\<close>

definition exp_renders :: "nat option \<Rightarrow> bool" where
  "exp_renders e = (case e of None \<Rightarrow> True | Some v \<Rightarrow> v = 0 \<or> v * 1000 \<le> 8640000000000000)"

definition salt_route ::
  "server_env \<Rightarrow> (string \<rightharpoonup> string) \<Rightarrow> json option \<Rightarrow> salt_response \<times> (string \<rightharpoonup> string)"
where
  "salt_route S userSalts token =
     (case token of
        Some (JStr t) \<Rightarrow>
          if t = [] \<or> length (split CHR ''.'' t) \<noteq> 3
          then (SaltServiceError ''Invalid JWT format'', userSalts)
          else
            (case jwt_decode S t of
               None \<Rightarrow> (SaltServiceError ''Invalid JWT'', userSalts)
             | Some decoded \<Rightarrow>
                 if \<not> exp_renders (exp decoded)
                 then (SaltServiceError ''Invalid JWT'', userSalts)
                 else
                 (case sub decoded of
                    None \<Rightarrow> (SaltServiceError ''Missing user subject (sub)'', userSalts)
                  | Some userSub \<Rightarrow>
                      if userSub = []
                      then (SaltServiceError ''Missing user subject (sub)'', userSalts)
                      else
                        (case normalizedAud (aud decoded) of
                           None \<Rightarrow> (SaltServiceError ''Invalid Client ID'', userSalts)
                         | Some a \<Rightarrow>
                             if a = [] \<or> a \<notin> set (WHITELISTED_CLIENT_IDS S)
                             then (SaltServiceError ''Invalid Client ID'', userSalts)
                             else
                               (case userSalts userSub of
                                  Some cached \<Rightarrow> (Salt cached, userSalts)
                                | None \<Rightarrow>
                                    (case derive_salt S userSub of
                                       None \<Rightarrow>
                                         (SaltInternalError ''Cannot convert 0x to a BigInt'',
                                          userSalts)
                                     | Some v \<Rightarrow> (Salt v, userSalts(userSub \<mapsto> v)))))))
      | _ \<Rightarrow>
          if truthy token
          then (SaltInternalError ''token.substring is not a function'', userSalts)
          else (SaltServiceError ''Invalid JWT format'', userSalts))"

text \<open>The server answering a sequence of salt requests, one after the other.\<close>

fun serve_salts ::
  "server_env \<Rightarrow> (string \<rightharpoonup> string) \<Rightarrow> json option list \<Rightarrow> salt_response list \<times> (string \<rightharpoonup> string)"
where
  "serve_salts S userSalts [] = ([], userSalts)"
| "serve_salts S userSalts (token # rest) =
     (case salt_route S userSalts token of
        (r, userSalts') \<Rightarrow>
          (case serve_salts S userSalts' rest of (rs, final) \<Rightarrow> (r # rs, final)))"

text \<open>
  The derivation in the words of the specification: the first 16 bytes of the HMAC-SHA256
  of the master secret over the subject, read as a big-endian integer, in decimal.
\<close>

definition be_nat :: "8 word list \<Rightarrow> nat" where
  "be_nat bs = foldl (\<lambda>a b. a * 256 + unat b) 0 bs"

definition keyed_derivation :: "server_env \<Rightarrow> string \<Rightarrow> string" where
  "keyed_derivation S userSub =
     decimal (be_nat (take 16 (createHmac_sha256 S (masterSecret S) userSub)))"

subsection \<open>POST /zkproof\<close>

record ZkProofRequest =
  jwt :: "json option"
  extendedEphemeralPublicKey :: "json option"
  maxEpoch :: "json option"
  jwtRandomness :: "json option"
  salt :: "json option"

datatype zkproof_response = ZkProof json | MissingRequiredFields | ZkProofInternalError string

text \<open>
  The route returns its response and the list of requests it sent to the remote prover.
  After the validation, \<open>jwt.substring(0, 100)\<close> throws a \<open>TypeError\<close> when \<open>jwt\<close> is not a
  string; the outer \<open>catch\<close> answers \<open>500\<close>.
\<close>

definition zkproof_route :: "server_env \<Rightarrow> ZkProofRequest \<Rightarrow> zkproof_response \<times> prover_payload list"
where
  "zkproof_route S body =
     (if \<not> truthy (jwt body) \<or> \<not> truthy (extendedEphemeralPublicKey body)
         \<or> \<not> truthy (maxEpoch body) \<or> \<not> truthy (jwtRandomness body) \<or> \<not> truthy (salt body)
      then (MissingRequiredFields, [])
      else
        (case jwt body of
           Some (JStr _) \<Rightarrow>
             (let payload = ProverPayload (jwt body) (extendedEphemeralPublicKey body)
                    (maxEpoch body) (jwtRandomness body) (salt body) ''sub''
              in case prover S payload of
                   ProverThrows m \<Rightarrow> (ZkProofInternalError m, [payload])
                 | ProverNotOk statusText errorText \<Rightarrow>
                     (ZkProofInternalError
                        (''Prover service error: '' @ statusText @ '' - '' @ errorText),
                      [payload])
                 | ProverOk zkProof \<Rightarrow> (ZkProof zkProof, [payload]))
         | _ \<Rightarrow> (ZkProofInternalError ''jwt.substring is not a function'', [])))"

section \<open>The client (zklogin.utils.ts)\<close>

subsection \<open>What the client takes from outside\<close>

text \<open>
  A \<open>fetch\<close> ends in one of three ways: the promise rejects (or reading the body throws),
  with the message of the error; the response is not \<open>ok\<close>, with its status and text; or
  the response is \<open>ok\<close>, with its parsed body.
\<close>

datatype 'a fetched = Rejected string | NotOk nat string | Ok 'a

record EpochInfo =
  epoch :: string
  epochDurationMs :: string
  epochStartTimestampMs :: string

text \<open>
  The body of a salt backup request: \<open>{userSub, userEmail, userSalt, timestamp}\<close>, in
  this order.
\<close>

datatype backup_request = BackupRequest string string string string

text \<open>
  The error object of a rejected salt request: \<open>{error, details}\<close>, both optional, as
  \<open>JSON.parse\<close> reads it from a text.
\<close>

record error_body =
  error_field :: "string option"
  details_field :: "string option"

text \<open>
  The functions of the Sui SDK, of \<open>jwt-decode\<close> and of the JavaScript runtime, the
  configuration and the remote services are fields of \<open>client_env\<close>. Opaque values of the
  SDK (key pairs, public keys, transactions, transaction bytes, signatures) are carried as
  strings. A function that can throw returns an option, \<open>None\<close> when it throws.
  \<open>CLIENT_ID\<close> and \<open>REDIRECT_URL\<close> are read from the variables
  \<open>VITE_GOOGLE_CLIENT_ID\<close> and \<open>VITE_REDIRECT_URL\<close> and carry their names here. The
  body of an \<open>ok\<close> salt response is its field \<open>salt\<close>, a string as \<open>userSalt\<close> is declared.
  \<open>toISOString_now\<close> is \<open>new Date().toISOString()\<close>, and \<open>sign\<close> is \<open>setSender\<close> followed by
  \<open>transactionBlock.sign\<close> (transaction, sender, key pair), returning the bytes and the
  signature.
  \<open>Number_other\<close> is \<open>Number(s)\<close> for a string \<open>s\<close> that is not a plain decimal numeral,
  \<open>plus_other\<close> is \<open>x + 2\<close> for a number \<open>x\<close> that is not a natural number, and
  \<open>toString_large\<close> is the exponent notation JavaScript uses from \<open>10^21\<close> on.
\<close>

record client_env =
  VITE_GOOGLE_CLIENT_ID :: string
  VITE_REDIRECT_URL :: string
  fetch_epoch :: "EpochInfo fetched"
  new_Ed25519Keypair :: string
  getSecretKey :: "string \<Rightarrow> string"
  getPublicKey :: "string \<Rightarrow> string"
  fromSecretKey :: "string \<Rightarrow> string option"
  generateRandomness :: string
  generateNonce :: "string \<Rightarrow> jsnum \<Rightarrow> string \<Rightarrow> string option"
  Number_other :: "string \<Rightarrow> jsnum"
  plus_other :: "string \<Rightarrow> nat \<Rightarrow> jsnum"
  toString_large :: "nat \<Rightarrow> string"
  jwtDecode :: "string \<Rightarrow> JwtPayload option"
  fetch_salt :: "string \<Rightarrow> string fetched"
  JSON_parse_error :: "string \<Rightarrow> error_body option"
  fetch_backup :: "backup_request \<Rightarrow> json fetched"
  toISOString_now :: string
  jwtToAddress :: "string \<Rightarrow> string \<Rightarrow> string option"
  getExtendedEphemeralPublicKey :: "string \<Rightarrow> string"
  fetch_proof :: "ZkProofRequest \<Rightarrow> json fetched"
  JSON_stringify :: "json \<Rightarrow> string"
  JSON_stringify_jwt :: "JwtPayload \<Rightarrow> string"
  JSON_parse :: "string \<Rightarrow> json option"
  JSON_parse_jwt :: "string \<Rightarrow> JwtPayload option"
  sign :: "string \<Rightarrow> string \<Rightarrow> string \<Rightarrow> (string \<times> string) option"
  BigInt :: "string \<Rightarrow> int option"
  genAddressSeed :: "int \<Rightarrow> string \<Rightarrow> string option \<Rightarrow> string \<Rightarrow> nat option"
  getZkLoginSignature :: "json \<Rightarrow> string \<Rightarrow> string \<Rightarrow> string \<Rightarrow> string option"
  executeTransactionBlock :: "string \<Rightarrow> string \<Rightarrow> string + json"

text \<open>
  The requests the client sends, in the order it sends them. \<open>SignTransaction\<close> is
  \<open>transactionBlock.sign\<close> (transaction, sender, ephemeral secret key), which builds the
  transaction through the Sui client; \<open>ExecuteTransactionBlock\<close> submits the signed bytes.
\<close>

datatype call =
  GetEpoch
| PostSalt string
| PostBackup backup_request
| PostProof ZkProofRequest
| SignTransaction string string string
| ExecuteTransactionBlock string string

text \<open>
  The errors the client throws, by their message; \<open>Thrown f\<close> is an exception out of the
  external function \<open>f\<close>, and \<open>FetchRejected m\<close> a rejected request. Each exported function
  catches every error and throws it again under its own prefix.
\<close>

datatype error =
  FailedToFetchEpochInfo
| MissingSessionData
| NonceMismatch
| EphemeralKeyMismatch
| FailedToFetchUserSalt "string option"
| EmailServiceReturned nat
| FailedToGenerateZkProof string
| MissingZkLoginSessionData
| ZkLoginAddressNotFound
| JwtAudClaimIsMissing
| Thrown string
| FetchRejected string

datatype failure =
  FailedToPrepareLogin error
| FailedToCompleteZkLogin error
| FailedToExecuteTransaction error

subsection \<open>Numbers of the client\<close>

text \<open>
  \<open>Number(s)\<close>: zero for the empty string, the nearest double for a decimal numeral.
\<close>

definition Number :: "client_env \<Rightarrow> string \<Rightarrow> jsnum" where
  "Number E s =
     (if s = [] then NatNum 0
      else if list_all is_digit s then Number_of_nat (decimal_value s)
      else Number_other E s)"

text \<open>\<open>x + 2\<close>: the exact sum, rounded to a double; \<open>Infinity\<close> and \<open>NaN\<close> absorb.\<close>

definition plus_2 :: "client_env \<Rightarrow> jsnum \<Rightarrow> jsnum" where
  "plus_2 E x =
     (case x of
        NatNum n \<Rightarrow> Number_of_nat (n + 2)
      | OtherNum r \<Rightarrow>
          if r = ''Infinity'' \<or> r = ''NaN'' then OtherNum r else plus_other E r 2)"

definition toString :: "client_env \<Rightarrow> jsnum \<Rightarrow> string" where
  "toString E x =
     (case x of
        NatNum n \<Rightarrow> if n < 10 ^ 21 then decimal n else toString_large E n
      | OtherNum r \<Rightarrow> r)"

text \<open>\<open>JSON.stringify\<close> writes \<open>NaN\<close> and the infinities as \<open>null\<close>.\<close>

definition json_of_number :: "jsnum \<Rightarrow> json" where
  "json_of_number x =
     (case x of
        NatNum n \<Rightarrow> JNum x
      | OtherNum r \<Rightarrow>
          if r = ''NaN'' \<or> r = ''Infinity'' \<or> r = ''-Infinity'' then JNull else JNum x)"

subsection \<open>prepareLogin\<close>

text \<open>
  The authorisation URL is carried as its base and its query parameters, in the order
  they are appended.
\<close>

datatype auth_url = AuthUrl string "(string \<times> string) list"

text \<open>
  Every function of the client returns its result, the browser's storage after it, and
  the requests it sent. An error leaves the storage as it was when the error was thrown:
  \<open>prepareLogin\<close> has stored the ephemeral key by the time \<open>generateNonce\<close> can throw.
\<close>

definition prepareLogin :: "client_env \<Rightarrow> browser \<Rightarrow> (failure + auth_url) \<times> browser \<times> call list" where
  "prepareLogin E b =
     (case fetch_epoch E of
        Rejected m \<Rightarrow> (Inl (FailedToPrepareLogin (FetchRejected m)), b, [GetEpoch])
      | NotOk status text \<Rightarrow> (Inl (FailedToPrepareLogin FailedToFetchEpochInfo), b, [GetEpoch])
      | Ok epochInfo \<Rightarrow>
          (let maxEpochNum = plus_2 E (Number E (epoch epochInfo));
               ephemeralKeyPair = new_Ed25519Keypair E;
               ephemeralSecretKey = getSecretKey E ephemeralKeyPair;
               b1 = b\<lparr>sessionStorage :=
                       setItem (sessionStorage b) EPHEMERAL_PRIVATE_KEY ephemeralSecretKey\<rparr>;
               randomnessStr = generateRandomness E
           in case generateNonce E (getPublicKey E ephemeralKeyPair) maxEpochNum randomnessStr of
                None \<Rightarrow> (Inl (FailedToPrepareLogin (Thrown ''generateNonce'')), b1, [GetEpoch])
              | Some nonceStr \<Rightarrow>
                  (let b2 = b1\<lparr>sessionStorage :=
                              setItem (sessionStorage b1) MAX_EPOCH (toString E maxEpochNum)\<rparr>;
                       b3 = b2\<lparr>sessionStorage :=
                              setItem (sessionStorage b2) RANDOMNESS randomnessStr\<rparr>;
                       b4 = b3\<lparr>sessionStorage := setItem (sessionStorage b3) NONCE nonceStr\<rparr>
                   in (Inr (AuthUrl ''https://accounts.google.com/o/oauth2/v2/auth''
                              [(''client_id'', VITE_GOOGLE_CLIENT_ID E),
                               (''response_type'', ''id_token''),
                               (''redirect_uri'', VITE_REDIRECT_URL E),
                               (''scope'', ''openid''),
                               (''nonce'', nonceStr)]),
                       b4, [GetEpoch]))))"

subsection \<open>completeZkLogin\<close>

text \<open>
  \<open>a !== b\<close> for a stored value (a string or \<open>null\<close>) and a claim (a string or
  \<open>undefined\<close>): \<open>null\<close> and \<open>undefined\<close> are different, so the two are equal only when both
  are the same string.
\<close>

definition strict_neq :: "string option \<Rightarrow> string option \<Rightarrow> bool" where
  "strict_neq a b = (case a of None \<Rightarrow> True | Some x \<Rightarrow> (case b of None \<Rightarrow> True | Some y \<Rightarrow> x \<noteq> y))"

text \<open>
  Lines 101 to 148: decoding the token, reading the session, and the two nonce checks.
  Nothing is stored and nothing is sent here. The result holds the decoded token, the
  recreated key pair, and the stored \<open>max_epoch\<close> and \<open>randomness\<close>.
\<close>

definition verify_session ::
  "client_env \<Rightarrow> browser \<Rightarrow> string \<Rightarrow> error + (JwtPayload \<times> string \<times> string \<times> string)"
where
  "verify_session E b encodedJWT =
     (case jwtDecode E encodedJWT of
        None \<Rightarrow> Inl (Thrown ''jwtDecode'')
      | Some decodedJwt \<Rightarrow>
          (let ephemeralPrivateKeyStr = getItem (sessionStorage b) EPHEMERAL_PRIVATE_KEY;
               maxEpochStr = getItem (sessionStorage b) MAX_EPOCH;
               randomnessStr = getItem (sessionStorage b) RANDOMNESS;
               storedNonce = getItem (sessionStorage b) NONCE
           in case (ephemeralPrivateKeyStr, maxEpochStr, randomnessStr) of
                (Some k, Some m, Some r) \<Rightarrow>
                  if k = [] \<or> m = [] \<or> r = [] then Inl MissingSessionData
                  else if strict_neq storedNonce (nonce decodedJwt) then Inl NonceMismatch
                  else
                    (case fromSecretKey E k of
                       None \<Rightarrow> Inl (Thrown ''Ed25519Keypair.fromSecretKey'')
                     | Some ephemeralKeyPair \<Rightarrow>
                         (case generateNonce E (getPublicKey E ephemeralKeyPair) (Number E m) r of
                            None \<Rightarrow> Inl (Thrown ''generateNonce'')
                          | Some verifyNonce \<Rightarrow>
                              if strict_neq (Some verifyNonce) (nonce decodedJwt)
                              then Inl EphemeralKeyMismatch
                              else Inr (decodedJwt, ephemeralKeyPair, m, r)))
              | _ \<Rightarrow> Inl MissingSessionData))"

text \<open>
  Lines 162 to 181: the salt out of the response to the salt request. For a response that
  is not \<open>ok\<close> the client reads the error out of the text: \<open>errorData.details\<close>, when truthy,
  is parsed again and its \<open>error\<close> taken, otherwise \<open>errorData.error\<close>; when a parse throws,
  the raw text stays.
\<close>

definition errorDetails :: "client_env \<Rightarrow> string \<Rightarrow> string option" where
  "errorDetails E errorText =
     (case JSON_parse_error E errorText of
        None \<Rightarrow> Some errorText
      | Some errorData \<Rightarrow>
          if truthy_str (details_field errorData)
          then (case details_field errorData of
                  None \<Rightarrow> error_field errorData
                | Some d \<Rightarrow>
                    (case JSON_parse_error E d of
                       None \<Rightarrow> Some errorText
                     | Some inner \<Rightarrow> error_field inner))
          else error_field errorData)"

definition salt_of_response :: "client_env \<Rightarrow> string fetched \<Rightarrow> error + string" where
  "salt_of_response E saltResponse =
     (case saltResponse of
        Rejected m \<Rightarrow> Inl (FetchRejected m)
      | Ok v \<Rightarrow> Inr v
      | NotOk status errorText \<Rightarrow> Inl (FailedToFetchUserSalt (errorDetails E errorText)))"

text \<open>
  \<open>sendSaltBackupEmail\<close>: it throws when the request is rejected or the response is not
  \<open>ok\<close>, and returns nothing otherwise.
\<close>

definition sendSaltBackupEmail :: "client_env \<Rightarrow> string \<Rightarrow> string \<Rightarrow> string \<Rightarrow> (error + unit) \<times> call list"
where
  "sendSaltBackupEmail E userSalt userSub userEmail =
     (let request = BackupRequest userSub userEmail userSalt (toISOString_now E)
      in case fetch_backup E request of
           Rejected m \<Rightarrow> (Inl (FetchRejected m), [PostBackup request])
         | NotOk status text \<Rightarrow> (Inl (EmailServiceReturned status), [PostBackup request])
         | Ok result \<Rightarrow> (Inr (), [PostBackup request]))"

text \<open>
  Lines 183 to 199: the salt is stored under \<open>user_salt\<close> and, in \<open>localStorage\<close>, under
  the key of the subject (the template literal renders an absent subject as
  \<open>undefined\<close>); then the backup is sent, once, and its failure is caught and logged.
\<close>

definition store_salt_and_backup ::
  "client_env \<Rightarrow> browser \<Rightarrow> JwtPayload \<Rightarrow> string \<Rightarrow> browser \<times> call list"
where
  "store_salt_and_backup E b decodedJwt userSalt =
     (let b1 = b\<lparr>sessionStorage := setItem (sessionStorage b) USER_SALT userSalt\<rparr>;
          b2 = b1\<lparr>localStorage :=
                  setItem (localStorage b1)
                    (salt_key (case sub decodedJwt of None \<Rightarrow> ''undefined'' | Some u \<Rightarrow> u))
                    userSalt\<rparr>;
          saltBackupSent = getItem (sessionStorage b2) SALT_BACKUP_SENT
      in if \<not> truthy_str saltBackupSent \<and> truthy_str (sub decodedJwt)
         then
           (case sub decodedJwt of
              None \<Rightarrow> (b2, [])
            | Some u \<Rightarrow>
                (let userEmail = (case email decodedJwt of None \<Rightarrow> [] | Some e \<Rightarrow> e)
                 in case sendSaltBackupEmail E userSalt u userEmail of
                      (Inl emailError, calls) \<Rightarrow> (b2, calls)
                    | (Inr _, calls) \<Rightarrow>
                        (b2\<lparr>sessionStorage :=
                              setItem (sessionStorage b2) SALT_BACKUP_SENT ''true''\<rparr>,
                         calls)))
         else (b2, []))"

text \<open>
  Lines 201 to 241: the address, the proof request, and the four values stored for
  signing.
\<close>

definition request_proof ::
  "client_env \<Rightarrow> browser \<Rightarrow> string \<Rightarrow> JwtPayload \<Rightarrow> string \<Rightarrow> string \<Rightarrow> string \<Rightarrow> string
     \<Rightarrow> (error + (string \<times> JwtPayload)) \<times> browser \<times> call list"
where
  "request_proof E b encodedJWT decodedJwt ephemeralKeyPair maxEpochStr randomnessStr userSalt =
     (case jwtToAddress E encodedJWT userSalt of
        None \<Rightarrow> (Inl (Thrown ''jwtToAddress''), b, [])
      | Some zkLoginUserAddress \<Rightarrow>
          (let request =
                 \<lparr>jwt = Some (JStr encodedJWT),
                  extendedEphemeralPublicKey =
                    Some (JStr (getExtendedEphemeralPublicKey E (getPublicKey E ephemeralKeyPair))),
                  maxEpoch = Some (json_of_number (Number E maxEpochStr)),
                  jwtRandomness = Some (JStr randomnessStr),
                  salt = Some (JStr userSalt)\<rparr>
           in case fetch_proof E request of
                Rejected m \<Rightarrow> (Inl (FetchRejected m), b, [PostProof request])
              | NotOk status errorText \<Rightarrow>
                  (Inl (FailedToGenerateZkProof errorText), b, [PostProof request])
              | Ok partialZkLoginSignature \<Rightarrow>
                  (let s1 = setItem (sessionStorage b) ZK_PROOF
                              (JSON_stringify E partialZkLoginSignature);
                       s2 = setItem s1 USER_SALT userSalt;
                       s3 = setItem s2 DECODED_JWT (JSON_stringify_jwt E decodedJwt);
                       s4 = setItem s3 ZKLOGIN_ADDRESS zkLoginUserAddress
                   in (Inr (zkLoginUserAddress, decodedJwt), b\<lparr>sessionStorage := s4\<rparr>,
                       [PostProof request]))))"

definition completeZkLogin ::
  "client_env \<Rightarrow> browser \<Rightarrow> string \<Rightarrow> (failure + (string \<times> JwtPayload)) \<times> browser \<times> call list"
where
  "completeZkLogin E b encodedJWT =
     (case verify_session E b encodedJWT of
        Inl e \<Rightarrow> (Inl (FailedToCompleteZkLogin e), b, [])
      | Inr (decodedJwt, ephemeralKeyPair, maxEpochStr, randomnessStr) \<Rightarrow>
          (case salt_of_response E (fetch_salt E encodedJWT) of
             Inl e \<Rightarrow> (Inl (FailedToCompleteZkLogin e), b, [PostSalt encodedJWT])
           | Inr userSalt \<Rightarrow>
               (case store_salt_and_backup E b decodedJwt userSalt of
                  (b', backupCalls) \<Rightarrow>
                    (case request_proof E b' encodedJWT decodedJwt ephemeralKeyPair maxEpochStr
                            randomnessStr userSalt of
                       (Inl e, b'', proofCalls) \<Rightarrow>
                         (Inl (FailedToCompleteZkLogin e), b'',
                          PostSalt encodedJWT # backupCalls @ proofCalls)
                     | (Inr r, b'', proofCalls) \<Rightarrow>
                         (Inr r, b'', PostSalt encodedJWT # backupCalls @ proofCalls)))))"

subsection \<open>executeZkLoginTransaction\<close>

text \<open>
  Lines 284 to 294: the audience is normalised, and the address seed is
  \<open>genAddressSeed(BigInt(userSalt), 'sub', decodedJwt.sub, aud).toString()\<close>.
\<close>

definition addressSeed_of :: "client_env \<Rightarrow> string \<Rightarrow> JwtPayload \<Rightarrow> error + string" where
  "addressSeed_of E userSalt decodedJwt =
     (case normalizedAud (aud decodedJwt) of
        None \<Rightarrow> Inl JwtAudClaimIsMissing
      | Some a \<Rightarrow>
          if a = [] then Inl JwtAudClaimIsMissing
          else
            (case BigInt E userSalt of
               None \<Rightarrow> Inl (Thrown ''BigInt'')
             | Some saltBigInt \<Rightarrow>
                 (case genAddressSeed E saltBigInt ''sub'' (sub decodedJwt) a of
                    None \<Rightarrow> Inl (Thrown ''genAddressSeed'')
                  | Some seed \<Rightarrow> Inr (decimal seed))))"

text \<open>
  Lines 254 to 275: reading the session. The result holds the stored secret key, epoch
  bound and salt, the parsed proof and token, the recreated key pair and the address.
  The address is tested after the two \<open>JSON.parse\<close> and the key pair.
\<close>

definition load_session ::
  "client_env \<Rightarrow> browser
     \<Rightarrow> error + (string \<times> string \<times> string \<times> json \<times> JwtPayload \<times> string \<times> string)"
where
  "load_session E b =
     (let ephemeralPrivateKeyStr = getItem (sessionStorage b) EPHEMERAL_PRIVATE_KEY;
          maxEpochStr = getItem (sessionStorage b) MAX_EPOCH;
          zkProofStr = getItem (sessionStorage b) ZK_PROOF;
          userSalt = getItem (sessionStorage b) USER_SALT;
          decodedJwtStr = getItem (sessionStorage b) DECODED_JWT;
          zkLoginAddress = getItem (sessionStorage b) ZKLOGIN_ADDRESS
      in case (ephemeralPrivateKeyStr, zkProofStr, userSalt, decodedJwtStr, maxEpochStr) of
           (Some k, Some zp, Some us, Some dj, Some m) \<Rightarrow>
             if k = [] \<or> zp = [] \<or> us = [] \<or> dj = [] \<or> m = []
             then Inl MissingZkLoginSessionData
             else
               (case JSON_parse E zp of
                  None \<Rightarrow> Inl (Thrown ''JSON.parse'')
                | Some zkProof \<Rightarrow>
                    (case JSON_parse_jwt E dj of
                       None \<Rightarrow> Inl (Thrown ''JSON.parse'')
                     | Some decodedJwt \<Rightarrow>
                         (case fromSecretKey E k of
                            None \<Rightarrow> Inl (Thrown ''Ed25519Keypair.fromSecretKey'')
                          | Some ephemeralKeyPair \<Rightarrow>
                              (case zkLoginAddress of
                                 None \<Rightarrow> Inl ZkLoginAddressNotFound
                               | Some sender \<Rightarrow>
                                   if sender = [] then Inl ZkLoginAddressNotFound
                                   else Inr (k, m, us, zkProof, decodedJwt, ephemeralKeyPair,
                                             sender)))))
         | _ \<Rightarrow> Inl MissingZkLoginSessionData)"

text \<open>
  The function reads the session, signs, computes the address seed, assembles the zkLogin
  signature and submits. It stores nothing. It does not ask for the current epoch: the
  stored \<open>max_epoch\<close> goes into the signature as it is.
\<close>

definition executeZkLoginTransaction ::
  "client_env \<Rightarrow> browser \<Rightarrow> string \<Rightarrow> (failure + json) \<times> browser \<times> call list"
where
  "executeZkLoginTransaction E b transactionBlock =
     (case load_session E b of
        Inl e \<Rightarrow> (Inl (FailedToExecuteTransaction e), b, [])
      | Inr (k, m, us, zkProof, decodedJwt, ephemeralKeyPair, sender) \<Rightarrow>
          (let signing = SignTransaction transactionBlock sender k
           in case sign E transactionBlock sender ephemeralKeyPair of
                None \<Rightarrow>
                  (Inl (FailedToExecuteTransaction (Thrown ''transactionBlock.sign'')), b,
                   [signing])
              | Some (bytes, userSignature) \<Rightarrow>
                  (case addressSeed_of E us decodedJwt of
                     Inl e \<Rightarrow> (Inl (FailedToExecuteTransaction e), b, [signing])
                   | Inr addressSeed \<Rightarrow>
                       (case getZkLoginSignature E zkProof addressSeed m userSignature of
                          None \<Rightarrow>
                            (Inl (FailedToExecuteTransaction (Thrown ''getZkLoginSignature'')),
                             b, [signing])
                        | Some zkLoginSignature \<Rightarrow>
                            (case executeTransactionBlock E bytes zkLoginSignature of
                               Inl msg \<Rightarrow>
                                 (Inl (FailedToExecuteTransaction (FetchRejected msg)), b,
                                  [signing, ExecuteTransactionBlock bytes zkLoginSignature])
                             | Inr result \<Rightarrow>
                                 (Inr result, b,
                                  [signing,
                                   ExecuteTransactionBlock bytes zkLoginSignature]))))))"

section \<open>Invariants\<close>

text \<open>
  The invariant of the in-memory store: every entry is what the derivation gives for its
  subject.
\<close>

definition cache_ok :: "server_env \<Rightarrow> (string \<rightharpoonup> string) \<Rightarrow> bool" where
  "cache_ok S userSalts = (\<forall>u v. userSalts u = Some v \<longrightarrow> derive_salt S u = Some v)"

text \<open>Two browsers that store the same but for the flag \<open>salt_backup_sent\<close>.\<close>

definition same_but_flag :: "browser \<Rightarrow> browser \<Rightarrow> bool" where
  "same_but_flag b1 b2 =
     (localStorage b1 = localStorage b2
      \<and> (\<forall>k. k \<noteq> SALT_BACKUP_SENT \<longrightarrow> sessionStorage b1 k = sessionStorage b2 k))"

section \<open>A concrete server\<close>

text \<open>
  A server to run the routes on: tokens are three dot-separated parts, of which the toy
  decoder reads the first as the nonce and the second as the subject (no subject when it is
  empty); the digest is 32 bytes that count up from the length of the message.
\<close>

definition example_payload :: "string \<Rightarrow> string \<Rightarrow> JwtPayload" where
  "example_payload h p =
     \<lparr>iss = Some ''https://accounts.google.com'',
      sub = (if p = [] then None else Some p),
      aud = Some (AudString ''client-a''),
      exp = None, nbf = None, iat = None, jti = None,
      nonce = Some h, email = None\<rparr>"

definition example_decode :: "string \<Rightarrow> JwtPayload option" where
  "example_decode t =
     (case split CHR ''.'' t of [h, p, s] \<Rightarrow> Some (example_payload h p) | _ \<Rightarrow> None)"

definition example_server :: server_env where
  "example_server =
     \<lparr>CLIENT_ID = ''client-a'',
      SALT_MASTER_SECRET = None,
      jwt_decode = example_decode,
      createHmac_sha256 = (\<lambda>key msg. map (\<lambda>i. word_of_nat (length msg + i)) [0..<32]),
      prover = (\<lambda>p. ProverOk (JStr ''proof''))\<rparr>"

section \<open>A concrete client\<close>

text \<open>
  A client to run the login on. Its salt endpoint is the salt route of the server above,
  seen over HTTP: a salt is an \<open>ok\<close> response, a rejection has the status \<open>403\<close> and an
  internal error \<open>500\<close>, with the message as the text. Its nonce is the public key, the
  epoch bound and the randomness, joined by colons.
\<close>

definition http_salt :: "(string \<Rightarrow> string) \<Rightarrow> salt_response \<Rightarrow> string fetched" where
  "http_salt render r =
     (case r of
        Salt v \<Rightarrow> Ok v
      | SaltServiceError d \<Rightarrow> NotOk 403 (render d)
      | SaltInternalError d \<Rightarrow> NotOk 500 (render d))"

definition example_nonce :: "string \<Rightarrow> jsnum \<Rightarrow> string \<Rightarrow> string option" where
  "example_nonce pk n r =
     Some (pk @ '':'' @ (case n of NatNum k \<Rightarrow> decimal k | OtherNum x \<Rightarrow> x) @ '':'' @ r)"

definition example_parse_jwt :: "string \<Rightarrow> JwtPayload option" where
  "example_parse_jwt s =
     (if s = ''scalar'' then Some (example_payload ''n'' ''user-42'')
      else if s = ''list'' then
        Some ((example_payload ''n'' ''user-42'')\<lparr>aud := Some (AudArray [''client-a''])\<rparr>)
      else if s = ''absent'' then Some ((example_payload ''n'' ''user-42'')\<lparr>aud := None\<rparr>)
      else None)"

definition example_client :: "string \<Rightarrow> client_env" where
  "example_client currentEpoch =
     \<lparr>VITE_GOOGLE_CLIENT_ID = ''client-a'',
      VITE_REDIRECT_URL = ''http://localhost:5173'',
      fetch_epoch = Ok \<lparr>epoch = currentEpoch, epochDurationMs = ''86400000'',
                         epochStartTimestampMs = ''0''\<rparr>,
      new_Ed25519Keypair = ''kp1'',
      getSecretKey = (\<lambda>k. ''suiprivkey-'' @ k),
      getPublicKey = (\<lambda>k. ''pub-'' @ k),
      fromSecretKey = (\<lambda>s. if take 11 s = ''suiprivkey-'' then Some (drop 11 s) else None),
      generateRandomness = ''12345'',
      generateNonce = example_nonce,
      Number_other = (\<lambda>s. OtherNum ''NaN''),
      plus_other = (\<lambda>r n. OtherNum ''NaN''),
      toString_large = (\<lambda>n. ''1e+21''),
      jwtDecode = example_decode,
      fetch_salt =
        (\<lambda>t. http_salt (\<lambda>d. d) (fst (salt_route example_server Map.empty (Some (JStr t))))),
      JSON_parse_error = (\<lambda>t. None),
      fetch_backup = (\<lambda>r. Ok (JObj [(''success'', JBool True)])),
      toISOString_now = ''2025-01-01T00:00:00.000Z'',
      jwtToAddress = (\<lambda>t s. Some (''0x'' @ s)),
      getExtendedEphemeralPublicKey = (\<lambda>pk. ''ext-'' @ pk),
      fetch_proof = (\<lambda>r. Ok (JStr ''proof'')),
      JSON_stringify = (\<lambda>j. ''proof''),
      JSON_stringify_jwt = (\<lambda>p. ''scalar''),
      JSON_parse = (\<lambda>s. Some (JStr s)),
      JSON_parse_jwt = example_parse_jwt,
      sign = (\<lambda>tx sender kp. Some (''bytes-'' @ tx, ''sig-'' @ kp)),
      BigInt = (\<lambda>s. if s \<noteq> [] \<and> list_all is_digit s then Some (int (decimal_value s)) else None),
      genAddressSeed = (\<lambda>v name claim a. Some (nat v + length a)),
      getZkLoginSignature = (\<lambda>proof seed m sig. Some (seed @ ''|'' @ m @ ''|'' @ sig)),
      executeTransactionBlock = (\<lambda>bytes sig. Inr (JStr ''digest''))\<rparr>"

text \<open>
  A browser with nothing stored, the session \<open>prepareLogin\<close> stores at epoch 5,
  and the session of a completed login with
  the epoch bound 10.
\<close>

definition empty_browser :: browser where
  "empty_browser = \<lparr>sessionStorage = Map.empty, localStorage = Map.empty\<rparr>"

definition example_pending :: browser where
  "example_pending =
     \<lparr>sessionStorage =
        [''ephemeral_private_key'' \<mapsto> ''suiprivkey-kp1'', ''max_epoch'' \<mapsto> ''7'',
         ''randomness'' \<mapsto> ''12345'', ''nonce'' \<mapsto> ''pub-kp1:7:12345''],
      localStorage = Map.empty\<rparr>"

definition example_session :: "string \<Rightarrow> browser" where
  "example_session decodedJwtStr =
     \<lparr>sessionStorage =
        [''ephemeral_private_key'' \<mapsto> ''suiprivkey-kp1'', ''max_epoch'' \<mapsto> ''10'',
         ''randomness'' \<mapsto> ''12345'', ''nonce'' \<mapsto> ''pub-kp1:10:12345'',
         ''zk_proof'' \<mapsto> ''proof'', ''user_salt'' \<mapsto> ''123456789'',
         ''decoded_jwt'' \<mapsto> decodedJwtStr, ''zklogin_address'' \<mapsto> ''0x123456789''],
      localStorage = [''zklogin_salt_user-42'' \<mapsto> ''123456789'']\<rparr>"

section \<open>The names of the session keys\<close>

lemmas session_key_defs =
  EPHEMERAL_PRIVATE_KEY_def MAX_EPOCH_def RANDOMNESS_def NONCE_def ZK_PROOF_def
  USER_SALT_def DECODED_JWT_def ZKLOGIN_ADDRESS_def SALT_BACKUP_SENT_def

section \<open>Properties of the salt derivation\<close>

text \<open>Reading the hexadecimal rendering of bytes back gives their big-endian value.\<close>

lemma hex_value_digit_chars: "list_all (\<lambda>d. hex_value (digit_char d) = Some d) [0..<16]"
  by code_simp

lemma hex_value_digit_char: "d < 16 \<Longrightarrow> hex_value (digit_char d) = Some d"
  using hex_value_digit_chars by (simp add: list_all_iff)

lemma hex_digits_value_byte:
  "hex_digits_value acc (hex_of_byte b @ cs) = hex_digits_value (acc * 256 + unat b) cs"
proof -
  have "unat b < 256" using unsigned_less [of b, where 'a = nat] by simp
  then have 1: "unat b div 16 < 16" by simp
  have 2: "unat b mod 16 < 16" by simp
  have 3: "(acc * 16 + unat b div 16) * 16 + unat b mod 16 = acc * 256 + unat b"
    by (simp add: algebra_simps)
  have "hex_digits_value acc (hex_of_byte b @ cs) =
      hex_digits_value ((acc * 16 + unat b div 16) * 16 + unat b mod 16) cs"
    by (simp add: hex_of_byte_def hex_value_digit_char [OF 1] hex_value_digit_char [OF 2])
  then show ?thesis by (simp only: 3)
qed

lemma hex_digits_value_bytes:
  "hex_digits_value acc (toString_hex bs) = Some (foldl (\<lambda>a b. a * 256 + unat b) acc bs)"
proof (induction bs arbitrary: acc)
  case Nil then show ?case by (simp add: toString_hex_def)
next
  case (Cons b bs)
  have "toString_hex (b # bs) = hex_of_byte b @ toString_hex bs" by (simp add: toString_hex_def)
  then show ?case using Cons.IH [of "acc * 256 + unat b"] by (simp add: hex_digits_value_byte)
qed

lemma toString_hex_empty: "toString_hex bs = [] \<longleftrightarrow> bs = []"
  by (cases bs) (simp_all add: toString_hex_def hex_of_byte_def)

lemma BigInt_hex_bytes:
  "BigInt_hex (''0x'' @ toString_hex bs) = (if bs = [] then None else Some (be_nat bs))"
  by (simp add: BigInt_hex_def toString_hex_empty hex_digits_value_bytes be_nat_def)

lemma foldl_bytes_bound:
  "foldl (\<lambda>a b. a * 256 + unat (b::8 word)) acc bs < (acc + 1) * 256 ^ length bs"
proof (induction bs arbitrary: acc)
  case Nil then show ?case by simp
next
  case (Cons b bs)
  have "unat b < 256" using unsigned_less [of b, where 'a = nat] by simp
  then have "acc * 256 + unat b + 1 \<le> (acc + 1) * 256" by simp
  then have "(acc * 256 + unat b + 1) * 256 ^ length bs \<le> ((acc + 1) * 256) * 256 ^ length bs"
    by (rule mult_le_mono1)
  moreover have "foldl (\<lambda>a b. a * 256 + unat b) acc (b # bs)
      < (acc * 256 + unat b + 1) * 256 ^ length bs"
    using Cons.IH [of "acc * 256 + unat b"] by simp
  moreover have "((acc + 1) * 256) * 256 ^ length bs = (acc + 1) * 256 ^ length (b # bs)"
    by (simp add: algebra_simps)
  ultimately show ?case by linarith
qed

lemma be_nat_bound: "be_nat bs < 256 ^ length bs"
  using foldl_bytes_bound [of 0 bs] by (simp add: be_nat_def)

lemma be_nat_take16: "be_nat (take 16 bs) < 2 ^ 128"
proof -
  have "be_nat (take 16 bs) < 256 ^ length (take 16 bs)" by (rule be_nat_bound)
  also have "\<dots> \<le> (256::nat) ^ 16" by (rule power_increasing) simp_all
  also have "\<dots> = 2 ^ 128" by simp
  finally show ?thesis .
qed

lemma derive_salt_eq:
  "derive_salt S u = (if createHmac_sha256 S (masterSecret S) u = [] then None else Some (keyed_derivation S u))"
proof -
  have "BigInt_hex (''0x'' @ toString_hex (take 16 h)) = (if h = [] then None else Some (be_nat (take 16 h)))" for h
    by (simp only: BigInt_hex_bytes) simp
  then show ?thesis
    by (simp add: derive_salt_def keyed_derivation_def Let_def del: append.simps)
qed

lemma cache_ok_empty: "cache_ok S Map.empty"
  by (simp add: cache_ok_def)

lemma salt_route_cache_ok:
  "cache_ok S c \<Longrightarrow> cache_ok S (snd (salt_route S c token))"
  by (auto simp: salt_route_def cache_ok_def split: option.splits json.splits)

lemma serve_salts_cache_ok:
  "cache_ok S c \<Longrightarrow> cache_ok S (snd (serve_salts S c tokens))"
proof (induction tokens arbitrary: c)
  case Nil then show ?case by simp
next
  case (Cons t ts)
  from Cons.IH [OF salt_route_cache_ok [OF Cons.prems, of t]]
  show ?case by (auto split: prod.splits)
qed

lemma salt_route_from_empty:
  "cache_ok S c \<Longrightarrow> fst (salt_route S c token) = fst (salt_route S Map.empty token)"
  by (auto simp: salt_route_def cache_ok_def split: option.splits json.splits)

lemma salt_route_Salt:
  assumes "fst (salt_route S Map.empty (Some (JStr t))) = Salt v"
  shows "\<exists>p u. jwt_decode S t = Some p \<and> sub p = Some u \<and> derive_salt S u = Some v"
  using assms by (auto simp: salt_route_def split: option.splits if_splits)

lemma salt_route_Salt_any:
  assumes "fst (salt_route S Map.empty token) = Salt v"
  shows "\<exists>u. derive_salt S u = Some v"
  using assms by (auto simp: salt_route_def split: option.splits if_splits json.splits)

lemma serve_salts_Salt:
  "cache_ok S c \<Longrightarrow> Salt v \<in> set (fst (serve_salts S c tokens)) \<Longrightarrow> \<exists>u. derive_salt S u = Some v"
proof (induction tokens arbitrary: c)
  case Nil then show ?case by simp
next
  case (Cons t ts)
  obtain r c' where r: "salt_route S c t = (r, c')" by (cases "salt_route S c t")
  then have c': "cache_ok S c'" using salt_route_cache_ok [OF Cons.prems(1), of t] by simp
  from Cons.prems(2) r have "Salt v = r \<or> Salt v \<in> set (fst (serve_salts S c' ts))"
    by (auto split: prod.splits)
  then show ?case
  proof
    assume "Salt v = r"
    with r salt_route_from_empty [OF Cons.prems(1), of t]
    have "fst (salt_route S Map.empty t) = Salt v" by simp
    then show ?thesis by (rule salt_route_Salt_any)
  next
    assume "Salt v \<in> set (fst (serve_salts S c' ts))"
    with c' show ?thesis by (rule Cons.IH)
  qed
qed

lemma derive_salt_Some: "derive_salt S u = Some v \<Longrightarrow> v = keyed_derivation S u"
  by (simp add: derive_salt_eq split: if_splits)








lemma example_server_fields:
  "CLIENT_ID example_server = ''client-a''"
  "SALT_MASTER_SECRET example_server = None"
  "jwt_decode example_server = example_decode"
  "prover example_server = (\<lambda>p. ProverOk (JStr ''proof''))"
  by (simp_all add: example_server_def)

lemma example_decode_user42:
  "example_decode ''n1.user-42.sigA'' = Some
    (example_payload ''n1'' ''user-42'')"
  "example_decode ''n2.user-42.sigB'' = Some
    (example_payload ''n2'' ''user-42'')"
  by (simp_all add: example_decode_def)

lemma example_derive_salt:
  "derive_salt example_server ''user-42'' = Some ''9346317682749651607006336776211272982''"
  by (simp add: example_server_def derive_salt_def masterSecret_def BigInt_hex_def
      toString_hex_def hex_of_byte_def hex_value_def digit_char_def decimal.simps upt_rec)

lemma example_salt_route:
  "salt_route example_server Map.empty (Some (JStr ''n1.user-42.sigA'')) =
     (Salt ''9346317682749651607006336776211272982'',
      [''user-42'' \<mapsto> ''9346317682749651607006336776211272982''])"
  by (simp add: salt_route_def example_server_fields example_decode_user42 example_derive_salt
      exp_renders_def normalizedAud_def WHITELISTED_CLIENT_IDS_def example_payload_def)

lemma example_salt_route_cached:
  "fst (salt_route example_server [''user-42'' \<mapsto> ''9346317682749651607006336776211272982'']
       (Some (JStr ''n2.user-42.sigB''))) = Salt ''9346317682749651607006336776211272982''"
  by (simp add: salt_route_def example_server_fields example_decode_user42
      exp_renders_def normalizedAud_def WHITELISTED_CLIENT_IDS_def example_payload_def)

subsection \<open>The salt of a subject\<close>

text \<open>
  Claim C3. Take two tokens that carry the same subject, and two salt requests with them,
  each made in a state the server reaches from its initial, empty store by answering any
  requests (\<open>before1\<close>, \<open>before2\<close>). If both are answered with a salt, the two salts are
  equal, they are the keyed derivation for the subject (the first 16 bytes of the
  HMAC-SHA256 of the master secret over the subject, as a decimal integer), and they are
  what the route answers from the empty store: the store never changes the result.
\<close>

theorem salt_same_for_subject:
  assumes "jwt_decode S t1 = Some p1" and "jwt_decode S t2 = Some p2" and "sub p1 = sub p2"
    and "fst (salt_route S (snd (serve_salts S Map.empty before1)) (Some (JStr t1))) = Salt v1"
    and "fst (salt_route S (snd (serve_salts S Map.empty before2)) (Some (JStr t2))) = Salt v2"
  shows "v1 = v2
    \<and> (\<exists>u. sub p1 = Some u \<and> v1 = keyed_derivation S u)
    \<and> fst (salt_route S Map.empty (Some (JStr t1))) = Salt v1"
proof -
  have ok1: "cache_ok S (snd (serve_salts S Map.empty before1))"
    and ok2: "cache_ok S (snd (serve_salts S Map.empty before2))"
    by (rule serve_salts_cache_ok [OF cache_ok_empty])+
  from assms(4) have s1: "fst (salt_route S Map.empty (Some (JStr t1))) = Salt v1"
    by (simp add: salt_route_from_empty [OF ok1])
  from assms(5) have s2: "fst (salt_route S Map.empty (Some (JStr t2))) = Salt v2"
    by (simp add: salt_route_from_empty [OF ok2])
  from salt_route_Salt [OF s1] assms(1) obtain u1
    where u1: "sub p1 = Some u1" "derive_salt S u1 = Some v1" by auto
  from salt_route_Salt [OF s2] assms(2) obtain u2
    where u2: "sub p2 = Some u2" "derive_salt S u2 = Some v2" by auto
  from u1 u2 assms(3) have "v1 = v2" by simp
  moreover from u1 have "\<exists>u. sub p1 = Some u \<and> v1 = keyed_derivation S u"
    by (auto dest: derive_salt_Some)
  ultimately show ?thesis using s1 by simp
qed

theorem salt_same_for_subject_witness:
  "jwt_decode example_server ''n1.user-42.sigA'' = Some
    (example_payload ''n1'' ''user-42'')
   \<and> jwt_decode example_server ''n2.user-42.sigB'' = Some
    (example_payload ''n2'' ''user-42'')
   \<and> fst (salt_route example_server (snd (serve_salts example_server Map.empty []))
         (Some (JStr ''n1.user-42.sigA''))) = Salt ''9346317682749651607006336776211272982''
   \<and> fst (salt_route example_server
         (snd (serve_salts example_server Map.empty [Some (JStr ''n1.user-42.sigA'')]))
         (Some (JStr ''n2.user-42.sigB''))) = Salt ''9346317682749651607006336776211272982''
   \<and> ''9346317682749651607006336776211272982'' = keyed_derivation example_server ''user-42''"
proof -
  have h1: "jwt_decode example_server ''n1.user-42.sigA'' = Some (example_payload ''n1'' ''user-42'')"
    and h2: "jwt_decode example_server ''n2.user-42.sigB'' = Some (example_payload ''n2'' ''user-42'')"
    by (simp_all add: example_server_fields example_decode_user42)
  have h3: "sub (example_payload ''n1'' ''user-42'') = sub (example_payload ''n2'' ''user-42'')"
    by (simp add: example_payload_def)
  have h4: "fst (salt_route example_server (snd (serve_salts example_server Map.empty []))
         (Some (JStr ''n1.user-42.sigA''))) = Salt ''9346317682749651607006336776211272982''"
    by (simp add: example_salt_route)
  have h5: "fst (salt_route example_server
         (snd (serve_salts example_server Map.empty [Some (JStr ''n1.user-42.sigA'')]))
         (Some (JStr ''n2.user-42.sigB''))) = Salt ''9346317682749651607006336776211272982''"
    by (simp add: example_salt_route example_salt_route_cached)
  from salt_same_for_subject [OF h1 h2 h3 h4 h5]
  have "\<exists>u. sub (example_payload ''n1'' ''user-42'') = Some u
      \<and> ''9346317682749651607006336776211272982'' = keyed_derivation example_server u"
    by (elim conjE)
  then have k: "''9346317682749651607006336776211272982'' = keyed_derivation example_server ''user-42''"
    by (auto simp: example_payload_def)
  show ?thesis
    by (intro conjI) (rule h1 h2 h4 h5 k)+
qed

text \<open>
  Claim C9. Every salt the derivation gives, and every salt the server answers with in a
  run from its initial store, is the decimal string of a natural number below \<open>2^128\<close>.
\<close>

theorem salt_below_2_128:
  "(derive_salt S u = Some v \<longrightarrow> (\<exists>n. n < 2 ^ 128 \<and> v = decimal n))
   \<and> (Salt v \<in> set (fst (serve_salts S Map.empty tokens)) \<longrightarrow> (\<exists>n. n < 2 ^ 128 \<and> v = decimal n))"
proof -
  have d: "\<exists>n. n < 2 ^ 128 \<and> w = decimal n" if "derive_salt S x = Some w" for x w
    using that be_nat_take16 [of "createHmac_sha256 S (masterSecret S) x"]
    by (auto simp: derive_salt_eq keyed_derivation_def split: if_splits)
  show ?thesis
    using d serve_salts_Salt [OF cache_ok_empty, of v S tokens] by blast
qed

theorem salt_below_2_128_witness:
  "derive_salt example_server ''user-42'' = Some ''9346317682749651607006336776211272982''
   \<and> Salt ''9346317682749651607006336776211272982''
       \<in> set (fst (serve_salts example_server Map.empty [Some (JStr ''n1.user-42.sigA'')]))
   \<and> (\<exists>n. n < 2 ^ 128 \<and> ''9346317682749651607006336776211272982'' = decimal n)"
  using salt_below_2_128 [of example_server "''user-42''"
      "''9346317682749651607006336776211272982''" "[Some (JStr ''n1.user-42.sigA'')]"]
  by (simp add: example_derive_salt example_salt_route)

subsection \<open>The proof route\<close>

text \<open>
  Claim C8. When one of the five inputs is absent from the request the route answers
  \<open>400\<close>, missing required fields, and sends nothing to the prover; and when the prover is
  contacted all five inputs are present, and they are what is sent, with the key claim
  name \<open>sub\<close>.
\<close>

theorem zkproof_requires_all_inputs:
  "(jwt body = None \<or> extendedEphemeralPublicKey body = None \<or> maxEpoch body = None
      \<or> jwtRandomness body = None \<or> salt body = None
      \<longrightarrow> zkproof_route S body = (MissingRequiredFields, []))
   \<and> (snd (zkproof_route S body) \<noteq> []
      \<longrightarrow> jwt body \<noteq> None \<and> extendedEphemeralPublicKey body \<noteq> None \<and> maxEpoch body \<noteq> None
          \<and> jwtRandomness body \<noteq> None \<and> salt body \<noteq> None
          \<and> snd (zkproof_route S body) =
              [ProverPayload (jwt body) (extendedEphemeralPublicKey body) (maxEpoch body)
                 (jwtRandomness body) (salt body) ''sub''])"
  by (auto simp: zkproof_route_def truthy_def Let_def split: option.splits json.splits prover_reply.splits)

theorem zkproof_requires_all_inputs_witness:
  "salt \<lparr>jwt = Some (JStr ''a.b.c''), extendedEphemeralPublicKey = Some (JStr ''pk''),
          maxEpoch = Some (JNum (NatNum 7)), jwtRandomness = Some (JStr ''123''),
          salt = None\<rparr> = None
   \<and> zkproof_route example_server
        \<lparr>jwt = Some (JStr ''a.b.c''), extendedEphemeralPublicKey = Some (JStr ''pk''),
          maxEpoch = Some (JNum (NatNum 7)), jwtRandomness = Some (JStr ''123''),
          salt = None\<rparr> = (MissingRequiredFields, [])
   \<and> snd (zkproof_route example_server
        \<lparr>jwt = Some (JStr ''a.b.c''), extendedEphemeralPublicKey = Some (JStr ''pk''),
          maxEpoch = Some (JNum (NatNum 7)), jwtRandomness = Some (JStr ''123''),
          salt = Some (JStr ''99'')\<rparr>) =
       [ProverPayload (Some (JStr ''a.b.c'')) (Some (JStr ''pk'')) (Some (JNum (NatNum 7)))
          (Some (JStr ''123'')) (Some (JStr ''99'')) ''sub'']"
  using zkproof_requires_all_inputs [of
      "\<lparr>jwt = Some (JStr ''a.b.c''), extendedEphemeralPublicKey = Some (JStr ''pk''),
          maxEpoch = Some (JNum (NatNum 7)), jwtRandomness = Some (JStr ''123''),
          salt = None\<rparr>" example_server]
    zkproof_requires_all_inputs [of
      "\<lparr>jwt = Some (JStr ''a.b.c''), extendedEphemeralPublicKey = Some (JStr ''pk''),
          maxEpoch = Some (JNum (NatNum 7)), jwtRandomness = Some (JStr ''123''),
          salt = Some (JStr ''99'')\<rparr>" example_server]
  by (simp add: zkproof_route_def truthy_def example_server_fields)

section \<open>Properties of prepareLogin\<close>

text \<open>A decimal numeral reads back as the number it was written from.\<close>

lemma digit_chars_decimal:
  "list_all (\<lambda>d. is_digit (digit_char d) \<and> of_char (digit_char d) - 48 = d) [0..<10]"
  by code_simp

lemma digit_char_decimal:
  "d < 10 \<Longrightarrow> is_digit (digit_char d) \<and> of_char (digit_char d) - 48 = d"
  using digit_chars_decimal by (simp add: list_all_iff)

lemma decimal_nonempty: "decimal n \<noteq> []"
  by (subst decimal.simps) simp

lemma decimal_digits: "list_all is_digit (decimal n)"
proof (induction n rule: decimal.induct)
  case (1 n)
  show ?case
  proof (cases "n < 10")
    case True
    then show ?thesis by (subst decimal.simps) (simp add: digit_char_decimal)
  next
    case False
    have "n mod 10 < 10" by simp
    with False "1.IH" show ?thesis
      by (subst decimal.simps) (simp add: digit_char_decimal)
  qed
qed

lemma decimal_value_snoc: "decimal_value (s @ [c]) = decimal_value s * 10 + (of_char c - 48)"
  by (simp add: decimal_value_def)

lemma decimal_value_decimal: "decimal_value (decimal n) = n"
proof (induction n rule: decimal.induct)
  case (1 n)
  show ?case
  proof (cases "n < 10")
    case True
    then show ?thesis
      by (subst decimal.simps) (simp add: decimal_value_def digit_char_decimal)
  next
    case False
    have "n mod 10 < 10" by simp
    then have "of_char (digit_char (n mod 10)) - 48 = n mod 10"
      by (simp add: digit_char_decimal)
    with False "1.IH" show ?thesis
      by (subst decimal.simps) (simp add: decimal_value_snoc)
  qed
qed

lemma round_to_double_exact: "n \<le> 2 ^ 53 \<Longrightarrow> round_to_double n = n"
proof (cases "n < 2 ^ 53")
  case True
  then show ?thesis by (simp add: round_to_double_def)
next
  case False
  assume "n \<le> 2 ^ 53"
  with False have n: "n = 2 ^ 53" by simp
  have "bit_length 9007199254740992 = 54" by (simp add: bit_length.simps)
  then show ?thesis unfolding n by (simp add: round_to_double_def Let_def)
qed

lemma Number_of_nat_exact: "n \<le> 2 ^ 53 \<Longrightarrow> Number_of_nat n = NatNum n"
proof -
  assume n: "n \<le> 2 ^ 53"
  have "(2::nat) ^ 53 < 2 ^ 1024" by simp
  with n have "n < 2 ^ 1024" by linarith
  with n show ?thesis by (simp add: Number_of_nat_def round_to_double_exact)
qed

lemma Number_decimal: "Number E (decimal e) = Number_of_nat e"
  by (simp add: Number_def decimal_nonempty decimal_digits decimal_value_decimal)

lemma maxEpoch_exact:
  assumes "e + 2 \<le> 2 ^ 53"
  shows "plus_2 E (Number E (decimal e)) = NatNum (e + 2)"
    and "toString E (NatNum (e + 2)) = decimal (e + 2)"
proof -
  from assms have "e \<le> 2 ^ 53" by simp
  then show "plus_2 E (Number E (decimal e)) = NatNum (e + 2)"
    using assms by (simp add: Number_decimal Number_of_nat_exact plus_2_def)
  have "(2::nat) ^ 53 < 10 ^ 21" by simp
  with assms have "e + 2 < 10 ^ 21" by linarith
  then show "toString E (NatNum (e + 2)) = decimal (e + 2)"
    by (simp add: toString_def)
qed



text \<open>
  Claim C4, amended. When the epoch request succeeds with the decimal numeral of an epoch
  \<open>e\<close> with \<open>e + 2 \<le> 2^53\<close> (where JavaScript's numbers add exactly) and the nonce
  derivation succeeds, \<open>prepareLogin\<close> chooses the bound \<open>e + 2\<close>, above \<open>e\<close>, and stores
  the fresh key, the bound in decimal, the fresh randomness and the nonce derived from the
  public key, the bound and the randomness; the nonce goes into the authorisation URL.
  Beyond \<open>2^53\<close> the sum is rounded: at \<open>e = 2^53 - 1\<close> the bound is \<open>2^53\<close>, not
  \<open>e + 2\<close>.
\<close>

theorem prepareLogin_maxEpoch:
  assumes "fetch_epoch E = Ok info" and "epoch info = decimal e" and "e + 2 \<le> 2 ^ 53"
    and "generateNonce E (getPublicKey E (new_Ed25519Keypair E)) (NatNum (e + 2))
           (generateRandomness E) = Some n"
  shows "e < e + 2
    \<and> prepareLogin E b =
        (Inr (AuthUrl ''https://accounts.google.com/o/oauth2/v2/auth''
                [(''client_id'', VITE_GOOGLE_CLIENT_ID E), (''response_type'', ''id_token''),
                 (''redirect_uri'', VITE_REDIRECT_URL E), (''scope'', ''openid''),
                 (''nonce'', n)]),
         b\<lparr>sessionStorage := (sessionStorage b)
              (''ephemeral_private_key'' \<mapsto> getSecretKey E (new_Ed25519Keypair E),
               ''max_epoch'' \<mapsto> decimal (e + 2),
               ''randomness'' \<mapsto> generateRandomness E,
               ''nonce'' \<mapsto> n)\<rparr>,
         [GetEpoch])"
  using assms maxEpoch_exact [OF assms(3), of E]
  by (simp add: prepareLogin_def Let_def setItem_def session_key_defs)


lemma example_client_prepare_fields:
  "fetch_epoch (example_client ce) =
     Ok \<lparr>epoch = ce, epochDurationMs = ''86400000'', epochStartTimestampMs = ''0''\<rparr>"
  "new_Ed25519Keypair (example_client ce) = ''kp1''"
  "getSecretKey (example_client ce) = (\<lambda>k. ''suiprivkey-'' @ k)"
  "getPublicKey (example_client ce) = (\<lambda>k. ''pub-'' @ k)"
  "generateRandomness (example_client ce) = ''12345''"
  "generateNonce (example_client ce) = example_nonce"
  "VITE_GOOGLE_CLIENT_ID (example_client ce) = ''client-a''"
  "VITE_REDIRECT_URL (example_client ce) = ''http://localhost:5173''"
  by (simp_all add: example_client_def)

lemma decimal_small: "decimal 5 = ''5''" "decimal 7 = ''7''"
  by (simp_all add: decimal.simps digit_char_def)

theorem prepareLogin_maxEpoch_witness:
  "fetch_epoch (example_client ''5'') =
     Ok \<lparr>epoch = ''5'', epochDurationMs = ''86400000'', epochStartTimestampMs = ''0''\<rparr>
   \<and> ''5'' = decimal 5
   \<and> (5::nat) + 2 \<le> 2 ^ 53
   \<and> prepareLogin (example_client ''5'') empty_browser =
        (Inr (AuthUrl ''https://accounts.google.com/o/oauth2/v2/auth''
                [(''client_id'', ''client-a''), (''response_type'', ''id_token''),
                 (''redirect_uri'', ''http://localhost:5173''), (''scope'', ''openid''),
                 (''nonce'', ''pub-kp1:7:12345'')]),
         \<lparr>sessionStorage =
            [''ephemeral_private_key'' \<mapsto> ''suiprivkey-kp1'', ''max_epoch'' \<mapsto> ''7'',
             ''randomness'' \<mapsto> ''12345'', ''nonce'' \<mapsto> ''pub-kp1:7:12345''],
          localStorage = Map.empty\<rparr>,
         [GetEpoch])"
proof -
  let ?E = "example_client ''5''"
  let ?info = "\<lparr>epoch = ''5'', epochDurationMs = ''86400000'', epochStartTimestampMs = ''0''\<rparr>"
  have h1: "fetch_epoch ?E = Ok ?info" by (simp add: example_client_prepare_fields)
  have h2: "epoch ?info = decimal 5" by (simp add: decimal_small)
  have h3: "(5::nat) + 2 \<le> 2 ^ 53" by simp
  have h4: "generateNonce ?E (getPublicKey ?E (new_Ed25519Keypair ?E)) (NatNum (5 + 2))
      (generateRandomness ?E) = Some ''pub-kp1:7:12345''"
    by (simp add: example_client_prepare_fields example_nonce_def decimal_small)
  from prepareLogin_maxEpoch [OF h1 h2 h3 h4, of empty_browser] h1 h2 h3
  show ?thesis
    by (simp add: example_client_prepare_fields decimal_small empty_browser_def)
qed

lemma bit_length_2_53_1: "bit_length 9007199254740993 = 54"
  by (simp add: bit_length.simps)

lemma example_huge_epoch:
  "plus_2 E (Number E ''9007199254740991'') = NatNum 9007199254740992"
  by (simp add: plus_2_def Number_def is_digit_def decimal_value_def Number_of_nat_def
      round_to_double_def bit_length_2_53_1 Let_def)

theorem prepareLogin_maxEpoch_counterexample:
  "fetch_epoch (example_client ''9007199254740991'') =
     Ok \<lparr>epoch = ''9007199254740991'', epochDurationMs = ''86400000'',
          epochStartTimestampMs = ''0''\<rparr>
   \<and> ''9007199254740991'' = decimal 9007199254740991
   \<and> getItem (sessionStorage (fst (snd (prepareLogin (example_client ''9007199254740991'')
          empty_browser)))) MAX_EPOCH = Some ''9007199254740992''
   \<and> ''9007199254740992'' \<noteq> decimal (9007199254740991 + 2)"
  by (simp add: prepareLogin_def example_client_prepare_fields example_huge_epoch Let_def
      example_nonce_def toString_def setItem_def getItem_def session_key_defs decimal.simps
      digit_char_def)

section \<open>Properties of completeZkLogin\<close>

lemma verify_session_Inr:
  assumes "verify_session E b tok = Inr (p, kp, m, r)"
  shows "jwtDecode E tok = Some p
    \<and> (\<exists>n k. getItem (sessionStorage b) NONCE = Some n \<and> nonce p = Some n
          \<and> getItem (sessionStorage b) EPHEMERAL_PRIVATE_KEY = Some k
          \<and> getItem (sessionStorage b) MAX_EPOCH = Some m
          \<and> getItem (sessionStorage b) RANDOMNESS = Some r
          \<and> fromSecretKey E k = Some kp
          \<and> generateNonce E (getPublicKey E kp) (Number E m) r = Some n)"
  using assms
  by (auto simp: verify_session_def strict_neq_def Let_def split: option.splits if_splits)

lemma verify_session_mismatch:
  assumes "jwtDecode E tok = Some p"
    and "truthy_str (getItem (sessionStorage b) EPHEMERAL_PRIVATE_KEY)"
    and "truthy_str (getItem (sessionStorage b) MAX_EPOCH)"
    and "truthy_str (getItem (sessionStorage b) RANDOMNESS)"
    and "getItem (sessionStorage b) NONCE \<noteq> nonce p"
  shows "verify_session E b tok = Inl NonceMismatch"
  using assms
  by (auto simp: verify_session_def strict_neq_def truthy_str_def Let_def split: option.splits)

lemma completeZkLogin_Inl:
  "verify_session E b tok = Inl e \<Longrightarrow>
   completeZkLogin E b tok = (Inl (FailedToCompleteZkLogin e), b, [])"
  by (simp add: completeZkLogin_def)

lemma example_client_fields:
  "fromSecretKey (example_client ce) =
     (\<lambda>s. if take 11 s = ''suiprivkey-'' then Some (drop 11 s) else None)"
  "Number_other (example_client ce) = (\<lambda>s. OtherNum ''NaN'')"
  "jwtDecode (example_client ce) = example_decode"
  "fetch_salt (example_client ce) =
     (\<lambda>t. http_salt (\<lambda>d. d) (fst (salt_route example_server Map.empty (Some (JStr t)))))"
  "JSON_parse_error (example_client ce) = (\<lambda>t. None)"
  "fetch_backup (example_client ce) = (\<lambda>r. Ok (JObj [(''success'', JBool True)]))"
  "toISOString_now (example_client ce) = ''2025-01-01T00:00:00.000Z''"
  "jwtToAddress (example_client ce) = (\<lambda>t s. Some (''0x'' @ s))"
  "getExtendedEphemeralPublicKey (example_client ce) = (\<lambda>pk. ''ext-'' @ pk)"
  "fetch_proof (example_client ce) = (\<lambda>r. Ok (JStr ''proof''))"
  "JSON_stringify (example_client ce) = (\<lambda>j. ''proof'')"
  "JSON_stringify_jwt (example_client ce) = (\<lambda>p. ''scalar'')"
  "JSON_parse (example_client ce) = (\<lambda>s. Some (JStr s))"
  "JSON_parse_jwt (example_client ce) = example_parse_jwt"
  "sign (example_client ce) = (\<lambda>tx sender kp. Some (''bytes-'' @ tx, ''sig-'' @ kp))"
  "BigInt (example_client ce) =
     (\<lambda>s. if s \<noteq> [] \<and> list_all is_digit s then Some (int (decimal_value s)) else None)"
  "genAddressSeed (example_client ce) = (\<lambda>v name claim a. Some (nat v + length a))"
  "getZkLoginSignature (example_client ce) =
     (\<lambda>proof seed m sig. Some (seed @ ''|'' @ m @ ''|'' @ sig))"
  "executeTransactionBlock (example_client ce) = (\<lambda>bytes sig. Inr (JStr ''digest''))"
  by (simp_all add: example_client_def)

lemma example_decode_tokens:
  "example_decode ''pub-kp1:7:12345.user-42.sig'' =
     Some (example_payload ''pub-kp1:7:12345'' ''user-42'')"
  "example_decode ''pub-kp1:7:12346.user-42.sig'' =
     Some (example_payload ''pub-kp1:7:12346'' ''user-42'')"
  "example_decode ''pub-kp1:7:12345..sig'' = Some (example_payload ''pub-kp1:7:12345'' [])"
  by (simp_all add: example_decode_def)

lemma example_Number_7: "Number E ''7'' = NatNum 7"
  by (simp add: Number_def is_digit_def decimal_value_def Number_of_nat_def round_to_double_def)

lemma getItem_setItem: "getItem (setItem s k v) k' = (if k' = k then Some v else getItem s k')"
  by (simp add: getItem_def setItem_def)

lemma example_pending_items:
  "getItem (sessionStorage example_pending) ''ephemeral_private_key'' = Some ''suiprivkey-kp1''"
  "getItem (sessionStorage example_pending) ''max_epoch'' = Some ''7''"
  "getItem (sessionStorage example_pending) ''randomness'' = Some ''12345''"
  "getItem (sessionStorage example_pending) ''nonce'' = Some ''pub-kp1:7:12345''"
  "getItem (sessionStorage example_pending) ''salt_backup_sent'' = None"
  by (simp_all add: example_pending_def getItem_def)

lemma example_verify_session:
  "verify_session (example_client ce) example_pending ''pub-kp1:7:12345.user-42.sig'' =
     Inr (example_payload ''pub-kp1:7:12345'' ''user-42'', ''kp1'', ''7'', ''12345'')"
  "verify_session (example_client ce) example_pending ''pub-kp1:7:12345..sig'' =
     Inr (example_payload ''pub-kp1:7:12345'' [], ''kp1'', ''7'', ''12345'')"
  by (simp_all add: verify_session_def example_client_fields example_client_prepare_fields
      example_decode_tokens example_pending_items example_Number_7 example_nonce_def
      strict_neq_def example_payload_def decimal_small session_key_defs)

text \<open>
  Claim C2. For a token that decodes: unless the stored nonce is the token's nonce and the
  nonce derived again from the stored key, epoch bound and randomness is the token's nonce
  too, \<open>completeZkLogin\<close> fails, having sent no request and stored nothing. And when the
  three session values are stored and the stored nonce differs from the token's nonce (in
  one character or more, or one of them is absent), the failure is the nonce mismatch.
\<close>

theorem completeZkLogin_nonce_checks:
  assumes "jwtDecode E tok = Some p"
  shows "(\<not> (\<exists>n k m r kp.
              getItem (sessionStorage b) NONCE = Some n \<and> nonce p = Some n
            \<and> getItem (sessionStorage b) EPHEMERAL_PRIVATE_KEY = Some k
            \<and> getItem (sessionStorage b) MAX_EPOCH = Some m
            \<and> getItem (sessionStorage b) RANDOMNESS = Some r
            \<and> fromSecretKey E k = Some kp
            \<and> generateNonce E (getPublicKey E kp) (Number E m) r = Some n)
          \<longrightarrow> (\<exists>e. completeZkLogin E b tok = (Inl (FailedToCompleteZkLogin e), b, [])))
    \<and> (truthy_str (getItem (sessionStorage b) EPHEMERAL_PRIVATE_KEY)
        \<and> truthy_str (getItem (sessionStorage b) MAX_EPOCH)
        \<and> truthy_str (getItem (sessionStorage b) RANDOMNESS)
        \<and> getItem (sessionStorage b) NONCE \<noteq> nonce p
          \<longrightarrow> completeZkLogin E b tok = (Inl (FailedToCompleteZkLogin NonceMismatch), b, []))"
proof (intro conjI impI)
  assume no: "\<not> (\<exists>n k m r kp.
              getItem (sessionStorage b) NONCE = Some n \<and> nonce p = Some n
            \<and> getItem (sessionStorage b) EPHEMERAL_PRIVATE_KEY = Some k
            \<and> getItem (sessionStorage b) MAX_EPOCH = Some m
            \<and> getItem (sessionStorage b) RANDOMNESS = Some r
            \<and> fromSecretKey E k = Some kp
            \<and> generateNonce E (getPublicKey E kp) (Number E m) r = Some n)"
  show "\<exists>e. completeZkLogin E b tok = (Inl (FailedToCompleteZkLogin e), b, [])"
  proof (cases "verify_session E b tok")
    case (Inl e)
    then show ?thesis by (auto simp: completeZkLogin_Inl)
  next
    case (Inr v)
    obtain p' kp m r where v: "v = (p', kp, m, r)" by (cases v)
    from verify_session_Inr [OF Inr [unfolded v]] assms have "p' = p" by simp
    with verify_session_Inr [OF Inr [unfolded v]] no show ?thesis by blast
  qed
next
  assume "truthy_str (getItem (sessionStorage b) EPHEMERAL_PRIVATE_KEY)
        \<and> truthy_str (getItem (sessionStorage b) MAX_EPOCH)
        \<and> truthy_str (getItem (sessionStorage b) RANDOMNESS)
        \<and> getItem (sessionStorage b) NONCE \<noteq> nonce p"
  then have "verify_session E b tok = Inl NonceMismatch"
    using assms by (simp add: verify_session_mismatch)
  then show "completeZkLogin E b tok = (Inl (FailedToCompleteZkLogin NonceMismatch), b, [])"
    by (rule completeZkLogin_Inl)
qed



theorem completeZkLogin_nonce_checks_witness:
  "jwtDecode (example_client ''5'') ''pub-kp1:7:12346.user-42.sig'' =
     Some (example_payload ''pub-kp1:7:12346'' ''user-42'')
   \<and> getItem (sessionStorage example_pending) NONCE = Some ''pub-kp1:7:12345''
   \<and> nonce (example_payload ''pub-kp1:7:12346'' ''user-42'') = Some ''pub-kp1:7:12346''
   \<and> truthy_str (getItem (sessionStorage example_pending) EPHEMERAL_PRIVATE_KEY)
   \<and> truthy_str (getItem (sessionStorage example_pending) MAX_EPOCH)
   \<and> truthy_str (getItem (sessionStorage example_pending) RANDOMNESS)
   \<and> completeZkLogin (example_client ''5'') example_pending ''pub-kp1:7:12346.user-42.sig'' =
       (Inl (FailedToCompleteZkLogin NonceMismatch), example_pending, [])"
proof -
  have h: "jwtDecode (example_client ''5'') ''pub-kp1:7:12346.user-42.sig'' =
     Some (example_payload ''pub-kp1:7:12346'' ''user-42'')"
    by (simp add: example_client_fields example_decode_tokens)
  have n: "nonce (example_payload ''pub-kp1:7:12346'' ''user-42'') = Some ''pub-kp1:7:12346''"
    by (simp add: example_payload_def)
  from completeZkLogin_nonce_checks [OF h, of example_pending] h n
  show ?thesis
    by (simp add: example_pending_items truthy_str_def session_key_defs)
qed

lemma http_salt_rejected:
  "r = SaltServiceError d \<Longrightarrow> salt_of_response E (http_salt render r) =
     Inl (FailedToFetchUserSalt (errorDetails E (render d)))"
  by (simp add: http_salt_def salt_of_response_def)

lemma salt_route_without_sub:
  assumes "jwt_decode S tok = Some q" and "sub q = None"
  shows "\<exists>d. salt_route S userSalts (Some (JStr tok)) = (SaltServiceError d, userSalts)"
  using assms by (simp add: salt_route_def)

text \<open>
  Claim C5, amended. The client does not look at \<open>sub\<close> before the salt request. For a
  token without \<open>sub\<close> that passes the session and nonce checks, with the salt endpoint
  served by the salt route, the client sends the salt request; the route rejects the token
  (status 403) and leaves its store as it was; and the client fails with the salt error,
  having sent the salt request only (no backup and no proof request) and stored nothing.
\<close>

theorem completeZkLogin_without_sub:
  assumes "verify_session E b tok = Inr (p, kp, m, r)" and "sub p = None"
    and "jwt_decode S tok = Some q" and "sub q = None"
    and "fetch_salt E tok = http_salt render (fst (salt_route S userSalts (Some (JStr tok))))"
  shows "(\<exists>d. salt_route S userSalts (Some (JStr tok)) = (SaltServiceError d, userSalts))
    \<and> (\<exists>d. completeZkLogin E b tok =
          (Inl (FailedToCompleteZkLogin (FailedToFetchUserSalt d)), b, [PostSalt tok]))"
proof -
  from salt_route_without_sub [OF assms(3,4), of userSalts]
  obtain d where d: "salt_route S userSalts (Some (JStr tok)) = (SaltServiceError d, userSalts)"
    by blast
  then have "salt_of_response E (fetch_salt E tok) =
      Inl (FailedToFetchUserSalt (errorDetails E (render d)))"
    by (simp add: assms(5) http_salt_rejected)
  then have "completeZkLogin E b tok =
      (Inl (FailedToCompleteZkLogin (FailedToFetchUserSalt (errorDetails E (render d)))), b,
       [PostSalt tok])"
    by (simp add: completeZkLogin_def assms(1))
  with d show ?thesis by blast
qed



lemma example_salt_route_no_sub:
  "salt_route example_server Map.empty (Some (JStr ''pub-kp1:7:12345..sig'')) =
     (SaltServiceError ''Missing user subject (sub)'', Map.empty)"
  by (simp add: salt_route_def example_server_fields example_decode_tokens example_payload_def
      exp_renders_def)

theorem completeZkLogin_without_sub_counterexample:
  "jwtDecode (example_client ''5'') ''pub-kp1:7:12345..sig'' =
     Some (example_payload ''pub-kp1:7:12345'' [])
   \<and> sub (example_payload ''pub-kp1:7:12345'' []) = None
   \<and> completeZkLogin (example_client ''5'') example_pending ''pub-kp1:7:12345..sig'' =
       (Inl (FailedToCompleteZkLogin (FailedToFetchUserSalt (Some ''Missing user subject (sub)''))),
        example_pending, [PostSalt ''pub-kp1:7:12345..sig''])"
  by (simp add: completeZkLogin_def example_verify_session example_client_fields
      example_decode_tokens example_salt_route_no_sub http_salt_def salt_of_response_def
      errorDetails_def example_payload_def)

theorem completeZkLogin_without_sub_witness:
  "verify_session (example_client ''5'') example_pending ''pub-kp1:7:12345..sig'' =
     Inr (example_payload ''pub-kp1:7:12345'' [], ''kp1'', ''7'', ''12345'')
   \<and> sub (example_payload ''pub-kp1:7:12345'' []) = None
   \<and> jwt_decode example_server ''pub-kp1:7:12345..sig'' =
       Some (example_payload ''pub-kp1:7:12345'' [])
   \<and> fetch_salt (example_client ''5'') ''pub-kp1:7:12345..sig'' =
       http_salt (\<lambda>d. d)
         (fst (salt_route example_server Map.empty (Some (JStr ''pub-kp1:7:12345..sig''))))
   \<and> (\<exists>d. salt_route example_server Map.empty (Some (JStr ''pub-kp1:7:12345..sig'')) =
          (SaltServiceError d, Map.empty))
   \<and> (\<exists>d. completeZkLogin (example_client ''5'') example_pending ''pub-kp1:7:12345..sig'' =
          (Inl (FailedToCompleteZkLogin (FailedToFetchUserSalt d)), example_pending,
           [PostSalt ''pub-kp1:7:12345..sig'']))"
proof -
  have h1: "verify_session (example_client ''5'') example_pending ''pub-kp1:7:12345..sig'' =
     Inr (example_payload ''pub-kp1:7:12345'' [], ''kp1'', ''7'', ''12345'')"
    by (rule example_verify_session)
  have h2: "sub (example_payload ''pub-kp1:7:12345'' []) = None"
    by (simp add: example_payload_def)
  have h3: "jwt_decode example_server ''pub-kp1:7:12345..sig'' =
       Some (example_payload ''pub-kp1:7:12345'' [])"
    by (simp add: example_server_fields example_decode_tokens)
  have h5: "fetch_salt (example_client ''5'') ''pub-kp1:7:12345..sig'' =
       http_salt (\<lambda>d. d)
         (fst (salt_route example_server Map.empty (Some (JStr ''pub-kp1:7:12345..sig''))))"
    by (simp add: example_client_fields)
  from completeZkLogin_without_sub [OF h1 h2 h3 h2 h5] h1 h2 h3 h5
  show ?thesis by blast
qed

lemma same_but_flag_upd:
  "same_but_flag b1 b2 \<Longrightarrow>
   (sessionStorage b1)(SALT_BACKUP_SENT := None) = (sessionStorage b2)(SALT_BACKUP_SENT := None)"
  by (auto simp: same_but_flag_def fun_eq_iff)

lemma same_but_flag_refl: "same_but_flag b b"
  by (simp add: same_but_flag_def)

lemma same_but_flag_setItem:
  "same_but_flag b1 b2 \<Longrightarrow>
   same_but_flag (b1\<lparr>sessionStorage := setItem (sessionStorage b1) k v\<rparr>)
     (b2\<lparr>sessionStorage := setItem (sessionStorage b2) k v\<rparr>)"
  by (auto simp: same_but_flag_def setItem_def)

lemma Number_fetch_backup: "Number (E\<lparr>fetch_backup := f\<rparr>) s = Number E s"
  by (simp add: Number_def)

lemma errorDetails_fetch_backup: "errorDetails (E\<lparr>fetch_backup := f\<rparr>) t = errorDetails E t"
  by (simp add: errorDetails_def cong: option.case_cong if_cong)

lemma verify_session_fetch_backup:
  "verify_session (E\<lparr>fetch_backup := f\<rparr>) b tok = verify_session E b tok"
  by (simp add: verify_session_def Number_fetch_backup
      cong: option.case_cong prod.case_cong if_cong)

lemma salt_of_response_fetch_backup:
  "salt_of_response (E\<lparr>fetch_backup := f\<rparr>) (fetch_salt (E\<lparr>fetch_backup := f\<rparr>) tok) =
   salt_of_response E (fetch_salt E tok)"
  by (simp add: salt_of_response_def errorDetails_fetch_backup cong: fetched.case_cong)

lemma store_salt_and_backup_fetch_backup:
  "fst (store_salt_and_backup (E\<lparr>fetch_backup := f\<rparr>) b p v) =  b1 \<Longrightarrow>
   fst (store_salt_and_backup E b p v) = b2 \<Longrightarrow>
   snd (store_salt_and_backup (E\<lparr>fetch_backup := f\<rparr>) b p v) = snd (store_salt_and_backup E b p v)
   \<and> same_but_flag b1 b2"
  by (auto simp: store_salt_and_backup_def sendSaltBackupEmail_def Let_def setItem_def
      same_but_flag_def split: option.splits fetched.splits if_splits)

lemma request_proof_fetch_backup:
  assumes "same_but_flag b1 b2"
  shows "fst (request_proof (E\<lparr>fetch_backup := f\<rparr>) b1 tok p kp m r v) =
           fst (request_proof E b2 tok p kp m r v)
    \<and> snd (snd (request_proof (E\<lparr>fetch_backup := f\<rparr>) b1 tok p kp m r v)) =
           snd (snd (request_proof E b2 tok p kp m r v))
    \<and> same_but_flag (fst (snd (request_proof (E\<lparr>fetch_backup := f\<rparr>) b1 tok p kp m r v)))
           (fst (snd (request_proof E b2 tok p kp m r v)))"
  using assms
  by (auto simp: request_proof_def Let_def Number_fetch_backup same_but_flag_def setItem_def
      split: option.splits fetched.splits)

text \<open>
  Claim C7. Whatever the salt backup endpoint does (\<open>f\<close> is any behaviour of it, a
  rejected request or an error status among them), \<open>completeZkLogin\<close> returns what it
  returns with any other backup endpoint: the same result, after the same requests, among
  them the proof request, with the same \<open>localStorage\<close> and the same \<open>sessionStorage\<close> but
  for the flag \<open>salt_backup_sent\<close>, which is set only when the backup succeeded.
\<close>

theorem backup_failure_swallowed:
  "fst (completeZkLogin (E\<lparr>fetch_backup := f\<rparr>) b tok) = fst (completeZkLogin E b tok)
   \<and> snd (snd (completeZkLogin (E\<lparr>fetch_backup := f\<rparr>) b tok)) =
       snd (snd (completeZkLogin E b tok))
   \<and> localStorage (fst (snd (completeZkLogin (E\<lparr>fetch_backup := f\<rparr>) b tok))) =
       localStorage (fst (snd (completeZkLogin E b tok)))
   \<and> (sessionStorage (fst (snd (completeZkLogin (E\<lparr>fetch_backup := f\<rparr>) b tok))))
         (SALT_BACKUP_SENT := None) =
       (sessionStorage (fst (snd (completeZkLogin E b tok))))(SALT_BACKUP_SENT := None)"
proof (cases "verify_session E b tok")
  case (Inl e)
  then show ?thesis by (simp add: completeZkLogin_def verify_session_fetch_backup)
next
  case (Inr v)
  obtain p kp m r where v: "v = (p, kp, m, r)" by (cases v)
  note vs = Inr [unfolded v]
  show ?thesis
  proof (cases "salt_of_response E (fetch_salt E tok)")
    case (Inl e)
    then show ?thesis
      using vs salt_of_response_fetch_backup [where E = E and f = f and tok = tok]
      by (simp add: completeZkLogin_def verify_session_fetch_backup)
  next
    case (Inr userSalt)
    let ?E' = "E\<lparr>fetch_backup := f\<rparr>"
    obtain b1 c1 where s1: "store_salt_and_backup ?E' b p userSalt = (b1, c1)"
      by (cases "store_salt_and_backup ?E' b p userSalt")
    obtain b2 c2 where s2: "store_salt_and_backup E b p userSalt = (b2, c2)"
      by (cases "store_salt_and_backup E b p userSalt")
    from store_salt_and_backup_fetch_backup [where E = E and f = f and b = b and p = p and v = userSalt and ?b1.0 = b1 and ?b2.0 = b2] s1 s2
    have c: "c1 = c2" and same: "same_but_flag b1 b2" by simp_all
    obtain r1 b1' d1 where p1: "request_proof ?E' b1 tok p kp m r userSalt = (r1, b1', d1)"
      by (cases "request_proof ?E' b1 tok p kp m r userSalt")
    obtain r2 b2' d2 where p2: "request_proof E b2 tok p kp m r userSalt = (r2, b2', d2)"
      by (cases "request_proof E b2 tok p kp m r userSalt")
    from request_proof_fetch_backup [OF same, where E = E and f = f and tok = tok and p = p and kp = kp and m = m and r = r and v = userSalt] p1 p2
    have eq: "r1 = r2" "d1 = d2" "same_but_flag b1' b2'" by simp_all
    have l: "completeZkLogin ?E' b tok =
        (case r1 of Inl e \<Rightarrow> Inl (FailedToCompleteZkLogin e) | Inr x \<Rightarrow> Inr x, b1',
         PostSalt tok # c1 @ d1)"
      using vs Inr salt_of_response_fetch_backup [where E = E and f = f and tok = tok] s1 p1
      by (simp add: completeZkLogin_def verify_session_fetch_backup split: sum.splits)
    have r: "completeZkLogin E b tok =
        (case r2 of Inl e \<Rightarrow> Inl (FailedToCompleteZkLogin e) | Inr x \<Rightarrow> Inr x, b2',
         PostSalt tok # c2 @ d2)"
      using vs Inr s2 p2 by (simp add: completeZkLogin_def split: sum.splits)
    show ?thesis using eq c same_but_flag_upd [OF eq(3)] by (simp add: l r same_but_flag_def)
  qed
qed



lemma example_salt_route_tokA:
  "salt_route example_server Map.empty (Some (JStr ''pub-kp1:7:12345.user-42.sig'')) =
     (Salt ''9346317682749651607006336776211272982'',
      [''user-42'' \<mapsto> ''9346317682749651607006336776211272982''])"
  by (simp add: salt_route_def example_server_fields example_decode_tokens example_derive_salt
      exp_renders_def normalizedAud_def WHITELISTED_CLIENT_IDS_def example_payload_def)

lemma example_completeZkLogin:
  "fst (completeZkLogin (example_client ''5'') example_pending ''pub-kp1:7:12345.user-42.sig'') =
     Inr (''0x9346317682749651607006336776211272982'',
          example_payload ''pub-kp1:7:12345'' ''user-42'')"
  by (simp add: completeZkLogin_def example_verify_session example_client_fields
      example_client_prepare_fields
      example_salt_route_tokA http_salt_def salt_of_response_def store_salt_and_backup_def
      sendSaltBackupEmail_def request_proof_def Let_def example_payload_def truthy_str_def
      getItem_setItem example_pending_items session_key_defs)

lemma example_completeZkLogin_calls:
  "snd (snd (completeZkLogin (example_client ''5'') example_pending
       ''pub-kp1:7:12345.user-42.sig'')) =
     [PostSalt ''pub-kp1:7:12345.user-42.sig'',
      PostBackup (BackupRequest ''user-42'' [] ''9346317682749651607006336776211272982''
        ''2025-01-01T00:00:00.000Z''),
      PostProof
        \<lparr>jwt = Some (JStr ''pub-kp1:7:12345.user-42.sig''),
         extendedEphemeralPublicKey = Some (JStr ''ext-pub-kp1''),
         maxEpoch = Some (JNum (NatNum 7)), jwtRandomness = Some (JStr ''12345''),
         salt = Some (JStr ''9346317682749651607006336776211272982'')\<rparr>]"
  by (simp add: completeZkLogin_def example_verify_session example_client_fields
      example_client_prepare_fields
      example_salt_route_tokA http_salt_def salt_of_response_def store_salt_and_backup_def
      sendSaltBackupEmail_def request_proof_def Let_def example_payload_def truthy_str_def
      getItem_setItem example_pending_items session_key_defs example_Number_7
      json_of_number_def)

theorem backup_failure_swallowed_witness:
  "fetch_backup ((example_client ''5'')\<lparr>fetch_backup := (\<lambda>r. NotOk 500 ''unavailable'')\<rparr>)
       (BackupRequest ''user-42'' [] ''9346317682749651607006336776211272982''
          ''2025-01-01T00:00:00.000Z'') = NotOk 500 ''unavailable''
   \<and> fst (completeZkLogin
          ((example_client ''5'')\<lparr>fetch_backup := (\<lambda>r. NotOk 500 ''unavailable'')\<rparr>)
          example_pending ''pub-kp1:7:12345.user-42.sig'') =
       Inr (''0x9346317682749651607006336776211272982'',
            example_payload ''pub-kp1:7:12345'' ''user-42'')
   \<and> snd (snd (completeZkLogin
          ((example_client ''5'')\<lparr>fetch_backup := (\<lambda>r. NotOk 500 ''unavailable'')\<rparr>)
          example_pending ''pub-kp1:7:12345.user-42.sig'')) =
       [PostSalt ''pub-kp1:7:12345.user-42.sig'',
        PostBackup (BackupRequest ''user-42'' [] ''9346317682749651607006336776211272982''
          ''2025-01-01T00:00:00.000Z''),
        PostProof
          \<lparr>jwt = Some (JStr ''pub-kp1:7:12345.user-42.sig''),
           extendedEphemeralPublicKey = Some (JStr ''ext-pub-kp1''),
           maxEpoch = Some (JNum (NatNum 7)), jwtRandomness = Some (JStr ''12345''),
           salt = Some (JStr ''9346317682749651607006336776211272982'')\<rparr>]"
  using backup_failure_swallowed [where E = "example_client ''5''"
      and f = "\<lambda>r. NotOk 500 ''unavailable''" and b = example_pending
      and tok = "''pub-kp1:7:12345.user-42.sig''"]
  by (simp add: example_completeZkLogin example_completeZkLogin_calls)

section \<open>Properties of executeZkLoginTransaction\<close>

lemma load_session_max_epoch:
  "load_session E b = Inr (k, m, us, zkProof, q, kp, sender) \<Longrightarrow>
   getItem (sessionStorage b) MAX_EPOCH = Some m
   \<and> getItem (sessionStorage b) EPHEMERAL_PRIVATE_KEY = Some k
   \<and> getItem (sessionStorage b) USER_SALT = Some us
   \<and> getItem (sessionStorage b) ZKLOGIN_ADDRESS = Some sender"
  by (auto simp: load_session_def Let_def split: option.splits if_splits)

lemma load_session_fetch_epoch: "load_session (E\<lparr>fetch_epoch := ep\<rparr>) b = load_session E b"
  by (simp add: load_session_def cong: option.case_cong prod.case_cong if_cong)

lemma addressSeed_of_fetch_epoch:
  "addressSeed_of (E\<lparr>fetch_epoch := ep\<rparr>) us q = addressSeed_of E us q"
  by (simp add: addressSeed_of_def cong: option.case_cong if_cong)

lemma executeZkLoginTransaction_no_GetEpoch:
  "GetEpoch \<notin> set (snd (snd (executeZkLoginTransaction E b tx)))"
  by (auto simp: executeZkLoginTransaction_def Let_def split: sum.splits option.splits prod.splits)



lemma example_session_items:
  "getItem (sessionStorage (example_session d)) ''ephemeral_private_key'' = Some ''suiprivkey-kp1''"
  "getItem (sessionStorage (example_session d)) ''max_epoch'' = Some ''10''"
  "getItem (sessionStorage (example_session d)) ''zk_proof'' = Some ''proof''"
  "getItem (sessionStorage (example_session d)) ''user_salt'' = Some ''123456789''"
  "getItem (sessionStorage (example_session d)) ''decoded_jwt'' = Some d"
  "getItem (sessionStorage (example_session d)) ''zklogin_address'' = Some ''0x123456789''"
  by (simp_all add: example_session_def getItem_def)

lemma example_parse_jwt_simps:
  "example_parse_jwt ''scalar'' = Some (example_payload ''n'' ''user-42'')"
  "example_parse_jwt ''list'' =
     Some ((example_payload ''n'' ''user-42'')\<lparr>aud := Some (AudArray [''client-a''])\<rparr>)"
  "example_parse_jwt ''absent'' = Some ((example_payload ''n'' ''user-42'')\<lparr>aud := None\<rparr>)"
  by (simp_all add: example_parse_jwt_def)

lemma example_load_session:
  "load_session (example_client ce) (example_session ''scalar'') =
     Inr (''suiprivkey-kp1'', ''10'', ''123456789'', JStr ''proof'',
          example_payload ''n'' ''user-42'', ''kp1'', ''0x123456789'')"
  "load_session (example_client ce) (example_session ''list'') =
     Inr (''suiprivkey-kp1'', ''10'', ''123456789'', JStr ''proof'',
          (example_payload ''n'' ''user-42'')\<lparr>aud := Some (AudArray [''client-a''])\<rparr>,
          ''kp1'', ''0x123456789'')"
  "load_session (example_client ce) (example_session ''absent'') =
     Inr (''suiprivkey-kp1'', ''10'', ''123456789'', JStr ''proof'',
          (example_payload ''n'' ''user-42'')\<lparr>aud := None\<rparr>, ''kp1'', ''0x123456789'')"
  by (simp_all add: load_session_def example_session_items session_key_defs
      example_client_fields example_parse_jwt_simps)

lemma example_addressSeed:
  "addressSeed_of (example_client ce) ''123456789'' (example_payload ''n'' ''user-42'') =
     Inr ''123456797''"
  by (simp add: addressSeed_of_def normalizedAud_def example_payload_def example_client_fields
      is_digit_def decimal_value_def decimal.simps digit_char_def)

lemma example_execute:
  "executeZkLoginTransaction (example_client ce) (example_session ''scalar'') ''tx'' =
     (Inr (JStr ''digest''), example_session ''scalar'',
      [SignTransaction ''tx'' ''0x123456789'' ''suiprivkey-kp1'',
       ExecuteTransactionBlock ''bytes-tx'' ''123456797|10|sig-kp1''])"
  by (simp add: executeZkLoginTransaction_def example_load_session example_addressSeed
      example_client_fields)

text \<open>
  Claim C1, amended. \<open>executeZkLoginTransaction\<close> makes no epoch check: it behaves the same
  whatever the epoch endpoint would answer, and never sends the epoch request. For a
  session that loads (every stored value present and well-formed), with any stored epoch
  bound \<open>m\<close>, when signing, the address seed and the assembly of the signature succeed, it
  submits the signed transaction, with \<open>m\<close> in the zkLogin signature, and returns what the
  ledger answers.
\<close>

theorem executeZkLoginTransaction_no_epoch_check:
  "executeZkLoginTransaction (E\<lparr>fetch_epoch := ep\<rparr>) b tx = executeZkLoginTransaction E b tx
   \<and> GetEpoch \<notin> set (snd (snd (executeZkLoginTransaction E b tx)))
   \<and> (load_session E b = Inr (k, m, us, zkProof, q, kp, sender)
       \<and> sign E tx sender kp = Some (bytes, userSignature)
       \<and> addressSeed_of E us q = Inr addressSeed
       \<and> getZkLoginSignature E zkProof addressSeed m userSignature = Some zkLoginSignature
      \<longrightarrow> getItem (sessionStorage b) MAX_EPOCH = Some m
        \<and> executeZkLoginTransaction E b tx =
            (case executeTransactionBlock E bytes zkLoginSignature of
               Inl msg \<Rightarrow> Inl (FailedToExecuteTransaction (FetchRejected msg))
             | Inr result \<Rightarrow> Inr result,
             b,
             [SignTransaction tx sender k, ExecuteTransactionBlock bytes zkLoginSignature]))"
proof (intro conjI impI)
  show "executeZkLoginTransaction (E\<lparr>fetch_epoch := ep\<rparr>) b tx = executeZkLoginTransaction E b tx"
    by (simp add: executeZkLoginTransaction_def load_session_fetch_epoch
        addressSeed_of_fetch_epoch cong: sum.case_cong prod.case_cong option.case_cong)
  show "GetEpoch \<notin> set (snd (snd (executeZkLoginTransaction E b tx)))"
    by (rule executeZkLoginTransaction_no_GetEpoch)
next
  assume h: "load_session E b = Inr (k, m, us, zkProof, q, kp, sender)
       \<and> sign E tx sender kp = Some (bytes, userSignature)
       \<and> addressSeed_of E us q = Inr addressSeed
       \<and> getZkLoginSignature E zkProof addressSeed m userSignature = Some zkLoginSignature"
  then have "load_session E b = Inr (k, m, us, zkProof, q, kp, sender)" by simp
  from load_session_max_epoch [OF this]
  show "getItem (sessionStorage b) MAX_EPOCH = Some m" by simp
  from h show "executeZkLoginTransaction E b tx =
            (case executeTransactionBlock E bytes zkLoginSignature of
               Inl msg \<Rightarrow> Inl (FailedToExecuteTransaction (FetchRejected msg))
             | Inr result \<Rightarrow> Inr result,
             b,
             [SignTransaction tx sender k, ExecuteTransactionBlock bytes zkLoginSignature])"
    by (simp add: executeZkLoginTransaction_def Let_def split: sum.splits)
qed



theorem executeZkLoginTransaction_no_epoch_check_counterexample:
  "fetch_epoch (example_client ''11'') =
     Ok \<lparr>epoch = ''11'', epochDurationMs = ''86400000'', epochStartTimestampMs = ''0''\<rparr>
   \<and> getItem (sessionStorage (example_session ''scalar'')) MAX_EPOCH = Some ''10''
   \<and> executeZkLoginTransaction (example_client ''11'') (example_session ''scalar'') ''tx'' =
       (Inr (JStr ''digest''), example_session ''scalar'',
        [SignTransaction ''tx'' ''0x123456789'' ''suiprivkey-kp1'',
         ExecuteTransactionBlock ''bytes-tx'' ''123456797|10|sig-kp1''])"
  by (simp add: example_execute example_client_prepare_fields example_session_items
      session_key_defs)

theorem executeZkLoginTransaction_no_epoch_check_witness:
  "load_session (example_client ''9'') (example_session ''scalar'') =
     Inr (''suiprivkey-kp1'', ''10'', ''123456789'', JStr ''proof'',
          example_payload ''n'' ''user-42'', ''kp1'', ''0x123456789'')
   \<and> sign (example_client ''9'') ''tx'' ''0x123456789'' ''kp1'' = Some (''bytes-tx'', ''sig-kp1'')
   \<and> addressSeed_of (example_client ''9'') ''123456789'' (example_payload ''n'' ''user-42'') =
       Inr ''123456797''
   \<and> getZkLoginSignature (example_client ''9'') (JStr ''proof'') ''123456797'' ''10'' ''sig-kp1'' =
       Some ''123456797|10|sig-kp1''
   \<and> getItem (sessionStorage (example_session ''scalar'')) MAX_EPOCH = Some ''10''
   \<and> executeZkLoginTransaction (example_client ''9'') (example_session ''scalar'') ''tx'' =
       (Inr (JStr ''digest''), example_session ''scalar'',
        [SignTransaction ''tx'' ''0x123456789'' ''suiprivkey-kp1'',
         ExecuteTransactionBlock ''bytes-tx'' ''123456797|10|sig-kp1''])
   \<and> executeZkLoginTransaction ((example_client ''9'')\<lparr>fetch_epoch :=
          Ok \<lparr>epoch = ''11'', epochDurationMs = ''86400000'', epochStartTimestampMs = ''0''\<rparr>\<rparr>)
        (example_session ''scalar'') ''tx'' =
       executeZkLoginTransaction (example_client ''9'') (example_session ''scalar'') ''tx''"
proof -
  let ?E = "example_client ''9''"
  have h1: "load_session ?E (example_session ''scalar'') =
     Inr (''suiprivkey-kp1'', ''10'', ''123456789'', JStr ''proof'',
          example_payload ''n'' ''user-42'', ''kp1'', ''0x123456789'')"
    by (rule example_load_session)
  have h2: "sign ?E ''tx'' ''0x123456789'' ''kp1'' = Some (''bytes-tx'', ''sig-kp1'')"
    by (simp add: example_client_fields)
  have h3: "addressSeed_of ?E ''123456789'' (example_payload ''n'' ''user-42'') =
       Inr ''123456797''"
    by (rule example_addressSeed)
  have h4: "getZkLoginSignature ?E (JStr ''proof'') ''123456797'' ''10'' ''sig-kp1'' =
       Some ''123456797|10|sig-kp1''"
    by (simp add: example_client_fields)
  have x: "executeTransactionBlock ?E ''bytes-tx'' ''123456797|10|sig-kp1'' = Inr (JStr ''digest'')"
    by (simp add: example_client_fields)
  from executeZkLoginTransaction_no_epoch_check [where E = ?E
      and b = "example_session ''scalar''" and tx = "''tx''" and k = "''suiprivkey-kp1''"
      and m = "''10''" and us = "''123456789''" and zkProof = "JStr ''proof''"
      and q = "example_payload ''n'' ''user-42''" and kp = "''kp1''"
      and sender = "''0x123456789''" and bytes = "''bytes-tx''" and userSignature = "''sig-kp1''"
      and addressSeed = "''123456797''" and zkLoginSignature = "''123456797|10|sig-kp1''"
      and ep = "Ok \<lparr>epoch = ''11'', epochDurationMs = ''86400000'',
                     epochStartTimestampMs = ''0''\<rparr>"]
    h1 h2 h3 h4 x
  show ?thesis by simp
qed

lemma addressSeed_of_scalar_list:
  "addressSeed_of E us (p\<lparr>aud := Some (AudString a)\<rparr>) =
   addressSeed_of E us (p\<lparr>aud := Some (AudArray (a # others))\<rparr>)"
  by (simp add: addressSeed_of_def normalizedAud_def cong: option.case_cong)

lemma addressSeed_of_absent: "aud q = None \<Longrightarrow> addressSeed_of E us q = Inl JwtAudClaimIsMissing"
  by (simp add: addressSeed_of_def normalizedAud_def)

text \<open>
  Claim C6. The address seed is the same for the audience \<open>a\<close> and for a list whose first
  entry is \<open>a\<close> (for \<open>client-a\<close> and \<open>[client-a]\<close> in particular), and so are the result
  and the requests of \<open>executeZkLoginTransaction\<close> on two sessions that differ only in
  that. With no audience the seed computation fails with the missing audience error, and
  a session that loads and signs fails with that error, after signing and before anything
  is submitted.
\<close>

theorem audience_normalised:
  "addressSeed_of E us (p\<lparr>aud := Some (AudString a)\<rparr>) =
     addressSeed_of E us (p\<lparr>aud := Some (AudArray (a # others))\<rparr>)
   \<and> (aud q = None \<longrightarrow> addressSeed_of E us q = Inl JwtAudClaimIsMissing)
   \<and> (load_session E b1 = Inr (k, m, us, zkProof, p\<lparr>aud := Some (AudString a)\<rparr>, kp, sender)
       \<and> load_session E b2 =
           Inr (k, m, us, zkProof, p\<lparr>aud := Some (AudArray (a # others))\<rparr>, kp, sender)
      \<longrightarrow> fst (executeZkLoginTransaction E b1 tx) = fst (executeZkLoginTransaction E b2 tx)
        \<and> snd (snd (executeZkLoginTransaction E b1 tx)) =
            snd (snd (executeZkLoginTransaction E b2 tx)))
   \<and> (load_session E b = Inr (k, m, us, zkProof, q, kp, sender) \<and> aud q = None
       \<and> sign E tx sender kp = Some (bytes, userSignature)
      \<longrightarrow> executeZkLoginTransaction E b tx =
            (Inl (FailedToExecuteTransaction JwtAudClaimIsMissing), b,
             [SignTransaction tx sender k]))"
proof (intro conjI impI)
  show "addressSeed_of E us (p\<lparr>aud := Some (AudString a)\<rparr>) =
     addressSeed_of E us (p\<lparr>aud := Some (AudArray (a # others))\<rparr>)"
    by (rule addressSeed_of_scalar_list)
  show "addressSeed_of E us q = Inl JwtAudClaimIsMissing" if "aud q = None"
    using that by (rule addressSeed_of_absent)
next
  assume h: "load_session E b1 = Inr (k, m, us, zkProof, p\<lparr>aud := Some (AudString a)\<rparr>, kp, sender)
       \<and> load_session E b2 =
           Inr (k, m, us, zkProof, p\<lparr>aud := Some (AudArray (a # others))\<rparr>, kp, sender)"
  have eq: "addressSeed_of E us (p\<lparr>aud := Some (AudArray (a # others))\<rparr>) =
      addressSeed_of E us (p\<lparr>aud := Some (AudString a)\<rparr>)"
    by (rule addressSeed_of_scalar_list [symmetric])
  from h show "fst (executeZkLoginTransaction E b1 tx) = fst (executeZkLoginTransaction E b2 tx)"
    by (simp add: executeZkLoginTransaction_def Let_def eq
        split: sum.splits option.splits prod.splits)
  from h show "snd (snd (executeZkLoginTransaction E b1 tx)) =
            snd (snd (executeZkLoginTransaction E b2 tx))"
    by (simp add: executeZkLoginTransaction_def Let_def eq
        split: sum.splits option.splits prod.splits)
next
  assume "load_session E b = Inr (k, m, us, zkProof, q, kp, sender) \<and> aud q = None
       \<and> sign E tx sender kp = Some (bytes, userSignature)"
  then show "executeZkLoginTransaction E b tx =
            (Inl (FailedToExecuteTransaction JwtAudClaimIsMissing), b,
             [SignTransaction tx sender k])"
    by (simp add: executeZkLoginTransaction_def Let_def addressSeed_of_absent)
qed



theorem audience_normalised_witness:
  "load_session (example_client ''9'') (example_session ''scalar'') =
     Inr (''suiprivkey-kp1'', ''10'', ''123456789'', JStr ''proof'',
          (example_payload ''n'' ''user-42'')\<lparr>aud := Some (AudString ''client-a'')\<rparr>,
          ''kp1'', ''0x123456789'')
   \<and> load_session (example_client ''9'') (example_session ''list'') =
     Inr (''suiprivkey-kp1'', ''10'', ''123456789'', JStr ''proof'',
          (example_payload ''n'' ''user-42'')\<lparr>aud := Some (AudArray [''client-a''])\<rparr>,
          ''kp1'', ''0x123456789'')
   \<and> fst (executeZkLoginTransaction (example_client ''9'') (example_session ''list'') ''tx'') =
       Inr (JStr ''digest'')
   \<and> snd (snd (executeZkLoginTransaction (example_client ''9'') (example_session ''list'') ''tx'')) =
       [SignTransaction ''tx'' ''0x123456789'' ''suiprivkey-kp1'',
        ExecuteTransactionBlock ''bytes-tx'' ''123456797|10|sig-kp1'']
   \<and> load_session (example_client ''9'') (example_session ''absent'') =
     Inr (''suiprivkey-kp1'', ''10'', ''123456789'', JStr ''proof'',
          (example_payload ''n'' ''user-42'')\<lparr>aud := None\<rparr>, ''kp1'', ''0x123456789'')
   \<and> aud ((example_payload ''n'' ''user-42'')\<lparr>aud := None\<rparr>) = None
   \<and> sign (example_client ''9'') ''tx'' ''0x123456789'' ''kp1'' = Some (''bytes-tx'', ''sig-kp1'')
   \<and> executeZkLoginTransaction (example_client ''9'') (example_session ''absent'') ''tx'' =
       (Inl (FailedToExecuteTransaction JwtAudClaimIsMissing), example_session ''absent'',
        [SignTransaction ''tx'' ''0x123456789'' ''suiprivkey-kp1''])"
proof -
  let ?E = "example_client ''9''"
  let ?p = "example_payload ''n'' ''user-42''"
  have p: "?p\<lparr>aud := Some (AudString ''client-a'')\<rparr> = ?p"
    by (simp add: example_payload_def)
  have h1: "load_session ?E (example_session ''scalar'') =
     Inr (''suiprivkey-kp1'', ''10'', ''123456789'', JStr ''proof'',
          ?p\<lparr>aud := Some (AudString ''client-a'')\<rparr>, ''kp1'', ''0x123456789'')"
    by (simp only: p example_load_session)
  have h2: "load_session ?E (example_session ''list'') =
     Inr (''suiprivkey-kp1'', ''10'', ''123456789'', JStr ''proof'',
          ?p\<lparr>aud := Some (AudArray [''client-a''])\<rparr>, ''kp1'', ''0x123456789'')"
    by (rule example_load_session)
  have h3: "load_session ?E (example_session ''absent'') =
     Inr (''suiprivkey-kp1'', ''10'', ''123456789'', JStr ''proof'',
          ?p\<lparr>aud := None\<rparr>, ''kp1'', ''0x123456789'')"
    by (rule example_load_session)
  have h4: "aud (?p\<lparr>aud := None\<rparr>) = None" by simp
  have h5: "sign ?E ''tx'' ''0x123456789'' ''kp1'' = Some (''bytes-tx'', ''sig-kp1'')"
    by (simp add: example_client_fields)
  note t = audience_normalised [where E = ?E and p = ?p and a = "''client-a''" and others = "[]"
      and ?b1.0 = "example_session ''scalar''" and ?b2.0 = "example_session ''list''"
      and b = "example_session ''absent''" and q = "?p\<lparr>aud := None\<rparr>"
      and k = "''suiprivkey-kp1''" and m = "''10''" and us = "''123456789''"
      and zkProof = "JStr ''proof''" and kp = "''kp1''" and sender = "''0x123456789''"
      and tx = "''tx''" and bytes = "''bytes-tx''" and userSignature = "''sig-kp1''"]
  from t h1 h2 have e: "fst (executeZkLoginTransaction ?E (example_session ''list'') ''tx'') =
       fst (executeZkLoginTransaction ?E (example_session ''scalar'') ''tx'')"
    and c: "snd (snd (executeZkLoginTransaction ?E (example_session ''list'') ''tx'')) =
       snd (snd (executeZkLoginTransaction ?E (example_session ''scalar'') ''tx''))"
    by simp_all
  from t h3 h4 h5 have a: "executeZkLoginTransaction ?E (example_session ''absent'') ''tx'' =
       (Inl (FailedToExecuteTransaction JwtAudClaimIsMissing), example_session ''absent'',
        [SignTransaction ''tx'' ''0x123456789'' ''suiprivkey-kp1''])"
    by simp
  show ?thesis
    using h1 h2 h3 h4 h5 a by (simp add: e c example_execute)
qed

section \<open>Properties of logout\<close>

lemma foldl_removeItem: "foldl removeItem s ks k = (if k \<in> set ks then None else s k)"
  by (induction ks arbitrary: s) (auto simp: removeItem_def)

text \<open>
  Claim C10. Logout removes exactly the nine session-scoped keys from \<open>sessionStorage\<close>
  (every other key of \<open>sessionStorage\<close> keeps its value), so afterwards
  \<open>isZkLoginSessionActive\<close> is false and \<open>getZkLoginAddress\<close> is \<open>null\<close>; \<open>localStorage\<close> is
  not touched, so \<open>recoverSaltFromStorage\<close> answers for every subject as it did before.
\<close>

theorem zkLoginLogout_frame:
  "getItem (sessionStorage (zkLoginLogout b)) k =
     (if k \<in> {''ephemeral_private_key'', ''max_epoch'', ''randomness'', ''nonce'', ''zk_proof'',
               ''user_salt'', ''decoded_jwt'', ''zklogin_address'', ''salt_backup_sent''}
      then None else getItem (sessionStorage b) k)
   \<and> \<not> isZkLoginSessionActive (zkLoginLogout b)
   \<and> getZkLoginAddress (zkLoginLogout b) = None
   \<and> localStorage (zkLoginLogout b) = localStorage b
   \<and> recoverSaltFromStorage (zkLoginLogout b) userSub = recoverSaltFromStorage b userSub"
proof -
  have keys: "set SESSION_KEYS_values =
      {''ephemeral_private_key'', ''max_epoch'', ''randomness'', ''nonce'', ''zk_proof'',
       ''user_salt'', ''decoded_jwt'', ''zklogin_address'', ''salt_backup_sent''}"
    by (simp add: SESSION_KEYS_values_def session_key_defs)
  have get: "getItem (sessionStorage (zkLoginLogout b)) k' =
      (if k' \<in> set SESSION_KEYS_values then None else getItem (sessionStorage b) k')" for k'
    by (simp add: zkLoginLogout_def getItem_def foldl_removeItem)
  have addr: "ZKLOGIN_ADDRESS \<in> set SESSION_KEYS_values"
    by (simp add: SESSION_KEYS_values_def)
  have loc: "localStorage (zkLoginLogout b) = localStorage b"
    by (simp add: zkLoginLogout_def)
  show ?thesis
    using get [of k] get [of ZKLOGIN_ADDRESS] addr loc
    by (simp add: keys isZkLoginSessionActive_def getZkLoginAddress_def
        recoverSaltFromStorage_def)
qed

end
